theory Spec2Isabelle
  imports Complex_Main "HOL-Library.AList"
begin

section \<open>Python values, exceptions and the primitives the pipeline uses\<close>

text \<open>
  The orchestrator \<^verbatim>\<open>AICICDPipeline.run_pipeline\<close> of \<^verbatim>\<open>main.py\<close> builds one dictionary
  of JSON-like values. Those values are modelled by \<open>pyval\<close>; a dictionary is an association
  list in insertion order, as Python's \<^verbatim>\<open>dict\<close> keeps it. A float is a rational or one of
  the three special values; the pipeline only carries floats around, tests their truth
  value, formats one for a log message and compares one with the integer 3, which Python
  does exactly.
\<close>

datatype pyfloat = Finite rat | PosInf | NegInf | NaN

datatype pyval =
    PNone
  | PBool bool
  | PInt int
  | PFloat pyfloat
  | PStr string
  | PList "pyval list"
  | PDict "(string \<times> pyval) list"

type_synonym dict = "(string \<times> pyval) list"

text \<open>
  Exceptions are values. \<open>KeyError\<close>, \<open>TypeError\<close>, \<open>AttributeError\<close> and \<open>ValueError\<close> are the
  ones the orchestrator's own expressions raise. The other three are what a collaborator may
  raise: \<open>Exception m\<close> is an instance of \<^verbatim>\<open>Exception\<close> whose \<^verbatim>\<open>str(e)\<close> is \<open>m\<close>;
  \<open>Unprintable e'\<close> is an instance of \<^verbatim>\<open>Exception\<close> whose \<^verbatim>\<open>__str__\<close> raises \<open>e'\<close>;
  \<open>BaseException m\<close> is an exception that is not an instance of \<^verbatim>\<open>Exception\<close>
  (\<^verbatim>\<open>KeyboardInterrupt\<close>, \<^verbatim>\<open>SystemExit\<close>, \<^verbatim>\<open>GeneratorExit\<close>), which \<^verbatim>\<open>except Exception\<close> does not
  catch.
\<close>

datatype pyexc =
    KeyError string
  | TypeError string
  | AttributeError string
  | ValueError string
  | Exception string
  | Unprintable pyexc
  | BaseException string

text \<open>\<^verbatim>\<open>isinstance(e, Exception)\<close>\<close>

fun is_exception :: "pyexc \<Rightarrow> bool" where
  "is_exception (BaseException m) = False"
| "is_exception e = True"

type_synonym 'a result = "pyexc + 'a"

definition apostrophe :: char where
  "apostrophe = CHR 0x27"

definition quoted :: "string \<Rightarrow> string" where
  "quoted s = apostrophe # s @ [apostrophe]"

text \<open>\<^verbatim>\<open>str(e)\<close>, which may itself raise: a \<^verbatim>\<open>KeyError\<close> prints the repr of the missing key
  (the keys looked up by the pipeline are plain identifiers, whose repr is the key between
  apostrophes).\<close>

fun str_exc :: "pyexc \<Rightarrow> string result" where
  "str_exc (KeyError k) = Inr (quoted k)"
| "str_exc (TypeError m) = Inr m"
| "str_exc (AttributeError m) = Inr m"
| "str_exc (ValueError m) = Inr m"
| "str_exc (Exception m) = Inr m"
| "str_exc (Unprintable e) = Inl e"
| "str_exc (BaseException m) = Inr m"

fun type_name :: "pyval \<Rightarrow> string" where
  "type_name PNone = ''NoneType''"
| "type_name (PBool _) = ''bool''"
| "type_name (PInt _) = ''int''"
| "type_name (PFloat _) = ''float''"
| "type_name (PStr _) = ''str''"
| "type_name (PList _) = ''list''"
| "type_name (PDict _) = ''dict''"

text \<open>Truth value of an object, as \<^verbatim>\<open>if x:\<close> and \<^verbatim>\<open>all(...)\<close> test it.\<close>

fun truthy :: "pyval \<Rightarrow> bool" where
  "truthy PNone = False"
| "truthy (PBool b) = b"
| "truthy (PInt i) = (i \<noteq> 0)"
| "truthy (PFloat f) = (f \<noteq> Finite 0)"
| "truthy (PStr s) = (s \<noteq> [])"
| "truthy (PList xs) = (xs \<noteq> [])"
| "truthy (PDict d) = (d \<noteq> [])"

text \<open>\<^verbatim>\<open>x[k]\<close> with a string key \<open>k\<close>.\<close>

fun py_getitem :: "pyval \<Rightarrow> string \<Rightarrow> pyval result" where
  "py_getitem (PDict d) k = (case map_of d k of None \<Rightarrow> Inl (KeyError k) | Some v \<Rightarrow> Inr v)"
| "py_getitem (PList xs) k = Inl (TypeError ''list indices must be integers or slices, not str'')"
| "py_getitem (PStr s) k = Inl (TypeError ''string indices must be integers'')"
| "py_getitem v k = Inl (TypeError (quoted (type_name v) @ '' object is not subscriptable''))"

text \<open>\<^verbatim>\<open>x[k] = v\<close> with a string key \<open>k\<close>; the result is the new value of \<open>x\<close>.\<close>

fun py_setitem :: "pyval \<Rightarrow> string \<Rightarrow> pyval \<Rightarrow> pyval result" where
  "py_setitem (PDict d) k v = Inr (PDict (AList.update k v d))"
| "py_setitem (PList xs) k v = Inl (TypeError ''list indices must be integers or slices, not str'')"
| "py_setitem x k v = Inl (TypeError (quoted (type_name x) @ '' object does not support item assignment''))"

text \<open>\<^verbatim>\<open>x.get(k, default)\<close> and \<^verbatim>\<open>x.values()\<close>: methods of dictionaries only.\<close>

fun py_get :: "pyval \<Rightarrow> string \<Rightarrow> pyval \<Rightarrow> pyval result" where
  "py_get (PDict d) k dflt = (case map_of d k of None \<Rightarrow> Inr dflt | Some v \<Rightarrow> Inr v)"
| "py_get x k dflt = Inl (AttributeError (quoted (type_name x) @ '' object has no attribute '' @ quoted ''get''))"

fun py_values :: "pyval \<Rightarrow> pyval list result" where
  "py_values (PDict d) = Inr (map snd d)"
| "py_values x = Inl (AttributeError (quoted (type_name x) @ '' object has no attribute '' @ quoted ''values''))"

text \<open>\<^verbatim>\<open>x <= n\<close> for an integer literal \<open>n\<close>: numbers compare (a \<^verbatim>\<open>bool\<close> is an \<^verbatim>\<open>int\<close>, a NaN
  compares false), anything else raises \<^verbatim>\<open>TypeError\<close>.\<close>

fun float_le_int :: "pyfloat \<Rightarrow> int \<Rightarrow> bool" where
  "float_le_int (Finite q) n = (q \<le> of_int n)"
| "float_le_int PosInf n = False"
| "float_le_int NegInf n = True"
| "float_le_int NaN n = False"

fun py_le_int :: "pyval \<Rightarrow> int \<Rightarrow> bool result" where
  "py_le_int (PInt i) n = Inr (i \<le> n)"
| "py_le_int (PBool b) n = Inr ((if b then 1 else 0) \<le> n)"
| "py_le_int (PFloat f) n = Inr (float_le_int f n)"
| "py_le_int v n = Inl (TypeError (quoted ''<='' @ '' not supported between instances of ''
      @ quoted (type_name v) @ '' and '' @ quoted ''int''))"

text \<open>
  \<^verbatim>\<open>f"{x}"\<close>: formatting a value inside an f-string. The text goes to the log only, so the
  model keeps just whether the conversion raises. It does for an integer of more than
  \<open>int_max_str_digits\<close> decimal digits (CPython's limit on integer string conversion, 4300
  unless reconfigured), also when the integer sits inside a list or a dictionary.
\<close>

definition int_max_str_digits :: nat where
  "int_max_str_digits = 4300"

fun printable :: "pyval \<Rightarrow> bool" where
  "printable (PInt i) = (\<bar>i\<bar> < 10 ^ int_max_str_digits)"
| "printable (PList xs) = list_all printable xs"
| "printable (PDict d) = list_all printable (map snd d)"
| "printable v = True"

definition py_format :: "pyval \<Rightarrow> unit result" where
  "py_format v =
     (if printable v then Inr ()
      else Inl (ValueError (''Exceeds the limit (4300 digits) for integer string conversion; ''
             @ ''use sys.set_int_max_str_digits() to increase the limit'')))"

text \<open>\<^verbatim>\<open>all(stage.get("passed", True) for stage in stages)\<close>: stops at the first falsy value,
  so the stages after it are not looked at.\<close>

fun all_passed :: "pyval list \<Rightarrow> bool result" where
  "all_passed [] = Inr True"
| "all_passed (stage # rest) =
     (case py_get stage ''passed'' (PBool True) of
        Inl e \<Rightarrow> Inl e
      | Inr p \<Rightarrow> if truthy p then all_passed rest else Inr False)"

section \<open>Collaborators\<close>

text \<open>
  The collaborator classes come from \<^verbatim>\<open>modules/\<close>, which is outside the orchestrator (the
  class \<^verbatim>\<open>AIAssistant\<close> that \<^verbatim>\<open>main.py\<close> defines after the pipeline class takes the place of the
  imported one; it is one possible assistant, several of whose methods raise
  \<^verbatim>\<open>AttributeError\<close> for want of their helper methods). \<^verbatim>\<open>run_pipeline\<close> only calls the
  collaborators' methods, so each method is a parameter: a function from its arguments to
  the exception it raises or the value it returns. The value types are the ones of the type
  hints of \<^verbatim>\<open>main.py\<close> (\<^verbatim>\<open>List[Dict]\<close>, \<^verbatim>\<open>Dict\<close>, \<^verbatim>\<open>List[str]\<close>), and a dictionary wherever the
  orchestrator subscripts the value with a string; what is read back out of \<^verbatim>\<open>results\<close> is
  passed on as it is. Collaborators mutate neither the arguments they are given nor the
  values they have returned.
\<close>

record CodeAnalyzer =
  analyze :: "string \<Rightarrow> dict list result"
  get_recent_changes :: "string \<Rightarrow> dict result"
  find_iac_files :: "string \<Rightarrow> string list result"

record TestManager =
  run_tests :: "string \<Rightarrow> dict result"

record SecurityScanner =
  scan :: "string \<Rightarrow> dict list result"

record DeploymentManager =
  validate_infrastructure :: "string list \<Rightarrow> dict result"
  create_deployment_plan :: "string \<Rightarrow> dict result"
  deploy :: "dict \<Rightarrow> dict result"

record AIAssistant =
  get_code_improvements :: "dict list \<Rightarrow> dict result"
  assess_security_risks :: "dict list \<Rightarrow> dict result"
  suggest_additional_tests :: "dict \<Rightarrow> dict \<Rightarrow> dict result"
  analyze_infrastructure_changes :: "string list \<Rightarrow> dict result"
  assess_deployment_risks :: "dict \<Rightarrow> pyval \<Rightarrow> pyval \<Rightarrow> dict result"
  generate_build_summary :: "dict \<Rightarrow> dict result"

text \<open>The object \<^verbatim>\<open>self\<close> after \<^verbatim>\<open>__init__\<close>.\<close>

record AICICDPipeline =
  repo_url :: string
  branch :: string
  aws_region :: string
  build_id :: string
  code_analyzer :: CodeAnalyzer
  test_manager :: TestManager
  security_scanner :: SecurityScanner
  deployment_manager :: DeploymentManager
  ai_assistant :: AIAssistant

section \<open>The state of a run\<close>

text \<open>
  \<open>results\<close> is the dictionary of the same name. \<open>calls\<close> and \<open>assigned\<close> are observations
  of the run: every collaborator method invoked, in order, with what it raised or returned,
  and every key \<open>k\<close> of an assignment \<^verbatim>\<open>results[k] = ...\<close>, in order.
\<close>

datatype operation =
    Analyze | GetCodeImprovements
  | Scan | AssessSecurityRisks
  | RunTests | GetRecentChanges | SuggestAdditionalTests
  | FindIacFiles | ValidateInfrastructure | AnalyzeInfrastructureChanges
  | CreateDeploymentPlan | AssessDeploymentRisks | Deploy
  | GenerateBuildSummary

record run_state =
  results :: dict
  calls :: "(operation \<times> pyval result) list"
  assigned :: "string list"

type_synonym 'a prog = "run_state \<Rightarrow> 'a result \<times> run_state"

definition ret :: "'a \<Rightarrow> 'a prog" where
  "ret x s = (Inr x, s)"

text \<open>An expression that may raise and has no effect.\<close>

definition expr :: "'a result \<Rightarrow> 'a prog" where
  "expr r s = (r, s)"

text \<open>Sequencing: an exception of the first statement skips the rest.\<close>

definition bind_prog :: "'a prog \<Rightarrow> ('a \<Rightarrow> 'b prog) \<Rightarrow> 'b prog" where
  "bind_prog m f s = (case m s of (Inl e, s') \<Rightarrow> (Inl e, s') | (Inr x, s') \<Rightarrow> f x s')"

text \<open>A collaborator call: the outcome \<open>r\<close> of the method is recorded under its name.\<close>

definition invoke :: "operation \<Rightarrow> ('a \<Rightarrow> pyval) \<Rightarrow> 'a result \<Rightarrow> 'a prog" where
  "invoke m wrap r s = (r, s\<lparr>calls := calls s @ [(m, map_sum id wrap r)]\<rparr>)"

definition dicts :: "dict list \<Rightarrow> pyval" where
  "dicts ds = PList (map PDict ds)"

definition strs :: "string list \<Rightarrow> pyval" where
  "strs xs = PList (map PStr xs)"

text \<open>\<^verbatim>\<open>results[k] = v\<close>\<close>

definition results_setitem :: "string \<Rightarrow> pyval \<Rightarrow> run_state \<Rightarrow> run_state" where
  "results_setitem k v s =
     s\<lparr>results := AList.update k v (results s), assigned := assigned s @ [k]\<rparr>"

text \<open>The whole dictionary, as passed in \<^verbatim>\<open>generate_build_summary(results)\<close>.\<close>

definition read_results :: "dict prog" where
  "read_results s = (Inr (results s), s)"

text \<open>\<^verbatim>\<open>results["stages"]\<close>\<close>

definition results_stages :: "pyval prog" where
  "results_stages s = (py_getitem (PDict (results s)) ''stages'', s)"

text \<open>\<^verbatim>\<open>results["stages"][k] = entry\<close>: the dictionary under \<^verbatim>\<open>"stages"\<close> is changed in place,
  \<^verbatim>\<open>results\<close> itself gets no new key.\<close>

definition stages_setitem :: "string \<Rightarrow> dict \<Rightarrow> unit prog" where
  "stages_setitem k entry s =
     (case py_getitem (PDict (results s)) ''stages'' of
        Inl e \<Rightarrow> (Inl e, s)
      | Inr st \<Rightarrow>
          (case py_setitem st k (PDict entry) of
             Inl e \<Rightarrow> (Inl e, s)
           | Inr st' \<Rightarrow> (Inr (), s\<lparr>results := AList.update ''stages'' st' (results s)\<rparr>)))"

section \<open>The pipeline\<close>

text \<open>\<^verbatim>\<open>clone_repository\<close> (lines 48-54): a placeholder that returns the local path.\<close>

definition clone_repository :: "AICICDPipeline \<Rightarrow> string prog" where
  "clone_repository self = ret (''/tmp/repo-'' @ build_id self)"

text \<open>Stage 1, lines 74-79.\<close>

definition code_analysis_stage :: "AICICDPipeline \<Rightarrow> string \<Rightarrow> unit prog" where
  "code_analysis_stage self repo_path =
     bind_prog (invoke Analyze dicts (analyze (code_analyzer self) repo_path)) (\<lambda>code_issues.
     bind_prog (invoke GetCodeImprovements PDict
                  (get_code_improvements (ai_assistant self) code_issues)) (\<lambda>ai_code_suggestions.
     stages_setitem ''code_analysis''
       [(''issues_found'', PInt (int (length code_issues))),
        (''ai_suggestions'', PDict ai_code_suggestions)]))"

text \<open>Stage 2, lines 84-89.\<close>

definition security_scan_stage :: "AICICDPipeline \<Rightarrow> string \<Rightarrow> unit prog" where
  "security_scan_stage self repo_path =
     bind_prog (invoke Scan dicts (scan (security_scanner self) repo_path)) (\<lambda>security_findings.
     bind_prog (invoke AssessSecurityRisks PDict
                  (assess_security_risks (ai_assistant self) security_findings)) (\<lambda>ai_security_assessment.
     stages_setitem ''security_scan''
       [(''vulnerabilities'', PInt (int (length security_findings))),
        (''ai_risk_assessment'', PDict ai_security_assessment)]))"

text \<open>Stage 3, lines 94-102. The three subscripts of \<^verbatim>\<open>test_results\<close> are evaluated in the
  order of the dictionary display, before the entry is stored.\<close>

definition testing_stage :: "AICICDPipeline \<Rightarrow> string \<Rightarrow> unit prog" where
  "testing_stage self repo_path =
     bind_prog (invoke RunTests PDict (run_tests (test_manager self) repo_path)) (\<lambda>test_results.
     bind_prog (invoke GetRecentChanges PDict
                  (get_recent_changes (code_analyzer self) repo_path)) (\<lambda>code_changes.
     bind_prog (invoke SuggestAdditionalTests PDict
                  (suggest_additional_tests (ai_assistant self) code_changes test_results)) (\<lambda>ai_test_suggestions.
     bind_prog (expr (py_getitem (PDict test_results) ''passed'')) (\<lambda>passed.
     bind_prog (expr (py_getitem (PDict test_results) ''failed'')) (\<lambda>failed.
     bind_prog (expr (py_getitem (PDict test_results) ''coverage'')) (\<lambda>coverage.
     stages_setitem ''testing''
       [(''passed'', passed),
        (''failed'', failed),
        (''coverage'', coverage),
        (''ai_test_suggestions'', PDict ai_test_suggestions)]))))))"

text \<open>Stage 4, lines 107-115: nothing is done, and nothing is stored, when \<^verbatim>\<open>iac_files\<close> is
  empty.\<close>

definition infrastructure_validation_stage :: "AICICDPipeline \<Rightarrow> string \<Rightarrow> unit prog" where
  "infrastructure_validation_stage self repo_path =
     bind_prog (invoke FindIacFiles strs (find_iac_files (code_analyzer self) repo_path)) (\<lambda>iac_files.
     if iac_files \<noteq> [] then
       bind_prog (invoke ValidateInfrastructure PDict
                    (validate_infrastructure (deployment_manager self) iac_files)) (\<lambda>iac_validation.
       bind_prog (invoke AnalyzeInfrastructureChanges PDict
                    (analyze_infrastructure_changes (ai_assistant self) iac_files)) (\<lambda>ai_iac_analysis.
       bind_prog (expr (py_getitem (PDict iac_validation) ''valid'')) (\<lambda>valid.
       bind_prog (expr (py_getitem (PDict iac_validation) ''errors'')) (\<lambda>errors.
       stages_setitem ''infrastructure_validation''
         [(''valid'', valid),
          (''errors'', errors),
          (''ai_analysis'', PDict ai_iac_analysis)]))))
     else ret ())"

text \<open>Lines 129-144: the branch on the risk level. In the \<^verbatim>\<open>else\<close> branch the message of
  \<^verbatim>\<open>logger.warning\<close> (line 139) subscripts the assessment again and formats the risk level,
  before the entry is stored.\<close>

definition deploy_or_halt :: "AICICDPipeline \<Rightarrow> dict \<Rightarrow> dict \<Rightarrow> unit prog" where
  "deploy_or_halt self deployment_plan ai_deployment_risks =
     bind_prog (expr (py_getitem (PDict ai_deployment_risks) ''risk_level'')) (\<lambda>risk_level.
     bind_prog (expr (py_le_int risk_level 3)) (\<lambda>approved.
     if approved then
       bind_prog (invoke Deploy PDict (deploy (deployment_manager self) deployment_plan)) (\<lambda>deployment_result.
       bind_prog (expr (py_getitem (PDict deployment_result) ''success'')) (\<lambda>success.
       bind_prog (expr (py_getitem (PDict deployment_result) ''environment'')) (\<lambda>environment.
       stages_setitem ''deployment''
         [(''success'', success),
          (''environment'', environment),
          (''ai_risk_assessment'', PDict ai_deployment_risks)])))
     else
       bind_prog (expr (py_getitem (PDict ai_deployment_risks) ''risk_level'')) (\<lambda>logged.
       bind_prog (expr (py_format logged)) (\<lambda>_.
       stages_setitem ''deployment''
         [(''success'', PBool False),
          (''halted_reason'', PStr ''High risk assessment''),
          (''ai_risk_assessment'', PDict ai_deployment_risks)]))))"

text \<open>Stage 5, lines 119-144. The second and third argument of \<^verbatim>\<open>assess_deployment_risks\<close>
  are \<^verbatim>\<open>results["stages"]["testing"]\<close> and
  \<^verbatim>\<open>results["stages"].get("infrastructure_validation", {})\<close>, evaluated in this order after
  the plan has been created.\<close>

definition deployment_stage :: "AICICDPipeline \<Rightarrow> string \<Rightarrow> unit prog" where
  "deployment_stage self repo_path =
     bind_prog results_stages (\<lambda>stages.
     bind_prog (expr (py_values stages)) (\<lambda>stage_values.
     bind_prog (expr (all_passed stage_values)) (\<lambda>ok.
     if ok then
       bind_prog (invoke CreateDeploymentPlan PDict
                    (create_deployment_plan (deployment_manager self) repo_path)) (\<lambda>deployment_plan.
       bind_prog results_stages (\<lambda>stages.
       bind_prog (expr (py_getitem stages ''testing'')) (\<lambda>testing.
       bind_prog results_stages (\<lambda>stages.
       bind_prog (expr (py_get stages ''infrastructure_validation'' (PDict []))) (\<lambda>infra.
       bind_prog (invoke AssessDeploymentRisks PDict
                    (assess_deployment_risks (ai_assistant self) deployment_plan testing infra)) (\<lambda>ai_deployment_risks.
       deploy_or_halt self deployment_plan ai_deployment_risks))))))
     else ret ())))"

text \<open>Line 147.\<close>

definition build_summary :: "AICICDPipeline \<Rightarrow> unit prog" where
  "build_summary self =
     bind_prog read_results (\<lambda>pipeline_results.
     bind_prog (invoke GenerateBuildSummary PDict
                  (generate_build_summary (ai_assistant self) pipeline_results)) (\<lambda>summary.
     (\<lambda>s. (Inr (), results_setitem ''ai_summary'' (PDict summary) s))))"

text \<open>The body of the \<^verbatim>\<open>try\<close> statement, lines 68-147.\<close>

definition try_block :: "AICICDPipeline \<Rightarrow> unit prog" where
  "try_block self =
     bind_prog (clone_repository self) (\<lambda>repo_path.
     bind_prog (code_analysis_stage self repo_path) (\<lambda>_.
     bind_prog (security_scan_stage self repo_path) (\<lambda>_.
     bind_prog (testing_stage self repo_path) (\<lambda>_.
     bind_prog (infrastructure_validation_stage self repo_path) (\<lambda>_.
     bind_prog (deployment_stage self repo_path) (\<lambda>_.
     build_summary self))))))"

text \<open>Lines 59-65. \<open>now\<close> is the clock: \<open>now n\<close> is what the \<open>n\<close>-th evaluation of
  \<^verbatim>\<open>datetime.now().isoformat()\<close> in the call returns.\<close>

definition initial_results :: "(nat \<Rightarrow> string) \<Rightarrow> AICICDPipeline \<Rightarrow> dict" where
  "initial_results now self =
     [(''build_id'', PStr (build_id self)),
      (''repository'', PStr (repo_url self)),
      (''branch'', PStr (branch self)),
      (''started_at'', PStr (now 0)),
      (''stages'', PDict [])]"

definition initial_state :: "(nat \<Rightarrow> string) \<Rightarrow> AICICDPipeline \<Rightarrow> run_state" where
  "initial_state now self = \<lparr>results = initial_results now self, calls = [], assigned = []\<rparr>"

text \<open>
  Lines 149-157: the \<^verbatim>\<open>except Exception\<close>, \<^verbatim>\<open>else\<close> and \<^verbatim>\<open>finally\<close> clauses. An exception of
  the \<^verbatim>\<open>try\<close> body that is not an instance of \<^verbatim>\<open>Exception\<close> is not caught; one that is caught
  is first converted by \<^verbatim>\<open>str(e)\<close> for the log message (line 151), and what that conversion
  raises leaves the handler. In both cases the \<^verbatim>\<open>finally\<close> clause runs and the exception
  goes on to the caller. The first component of the result is \<open>Inl e\<close> when \<open>e\<close> reaches the
  caller and \<open>Inr ()\<close> when line 159 returns.
\<close>

definition handlers :: "(nat \<Rightarrow> string) \<Rightarrow> unit result \<times> run_state \<Rightarrow> unit result \<times> run_state" where
  "handlers now outcome =
     (case outcome of (r, s) \<Rightarrow>
        (case r of
           Inl e \<Rightarrow>
             if is_exception e then
               (case str_exc e of
                  Inl e' \<Rightarrow> (Inl e', results_setitem ''completed_at'' (PStr (now 1)) s)
                | Inr msg \<Rightarrow>
                    (Inr (), results_setitem ''completed_at'' (PStr (now 1))
                               (results_setitem ''success'' (PBool False)
                                 (results_setitem ''error'' (PStr msg) s))))
             else (Inl e, results_setitem ''completed_at'' (PStr (now 1)) s)
         | Inr _ \<Rightarrow>
             (Inr (), results_setitem ''completed_at'' (PStr (now 1))
                        (results_setitem ''success'' (PBool True) s))))"

text \<open>
  \<^verbatim>\<open>run_pipeline\<close>, lines 56-159. When the first component is \<open>Inr ()\<close> the call returns the
  dictionary \<open>results\<close> of the second component; when it is \<open>Inl e\<close> the exception \<open>e\<close>
  reaches the caller and nothing is returned. The \<^verbatim>\<open>logger\<close> calls whose message is a constant
  or is built from the strings of \<^verbatim>\<open>self\<close> have no effect on either and are left out.
\<close>

definition run_pipeline :: "(nat \<Rightarrow> string) \<Rightarrow> AICICDPipeline \<Rightarrow> unit result \<times> run_state" where
  "run_pipeline now self = handlers now (try_block self (initial_state now self))"

text \<open>Stages 1 to 3 in sequence, a name for the first part of the \<^verbatim>\<open>try\<close> body.\<close>

definition analysis_stages :: "AICICDPipeline \<Rightarrow> string \<Rightarrow> unit prog" where
  "analysis_stages self repo_path =
     bind_prog (code_analysis_stage self repo_path) (\<lambda>_.
     bind_prog (security_scan_stage self repo_path) (\<lambda>_.
     testing_stage self repo_path))"

text \<open>Stages 1 to 4 in sequence: everything that runs before the deployment gate.\<close>

definition before_deployment :: "AICICDPipeline \<Rightarrow> string \<Rightarrow> unit prog" where
  "before_deployment self repo_path =
     bind_prog (analysis_stages self repo_path) (\<lambda>_.
     infrastructure_validation_stage self repo_path)"

text \<open>The statements of stage 4 that run when infrastructure files were found (lines 108-115).\<close>

definition infrastructure_checks :: "AICICDPipeline \<Rightarrow> string list \<Rightarrow> unit prog" where
  "infrastructure_checks self iac_files =
     bind_prog (invoke ValidateInfrastructure PDict
                  (validate_infrastructure (deployment_manager self) iac_files)) (\<lambda>iac_validation.
     bind_prog (invoke AnalyzeInfrastructureChanges PDict
                  (analyze_infrastructure_changes (ai_assistant self) iac_files)) (\<lambda>ai_iac_analysis.
     bind_prog (expr (py_getitem (PDict iac_validation) ''valid'')) (\<lambda>valid.
     bind_prog (expr (py_getitem (PDict iac_validation) ''errors'')) (\<lambda>errors.
     stages_setitem ''infrastructure_validation''
       [(''valid'', valid),
        (''errors'', errors),
        (''ai_analysis'', PDict ai_iac_analysis)]))))"

definition repo_path_of :: "AICICDPipeline \<Rightarrow> string" where
  "repo_path_of self = ''/tmp/repo-'' @ build_id self"

section \<open>Reading a report\<close>

text \<open>\<open>stage_entry s k\<close> is \<^verbatim>\<open>results["stages"].get(k)\<close>; \<open>invoked s\<close> lists the methods
  called, in order.\<close>

definition stage_entry :: "run_state \<Rightarrow> string \<Rightarrow> pyval option" where
  "stage_entry s k =
     (case map_of (results s) ''stages'' of Some (PDict st) \<Rightarrow> map_of st k | _ \<Rightarrow> None)"

definition invoked :: "run_state \<Rightarrow> operation list" where
  "invoked s = map fst (calls s)"

section \<open>What a statement may touch\<close>

text \<open>
  \<open>touches M K s s'\<close> relates the state before a piece of the pipeline to the state after it:
  only methods of \<open>M\<close> have been invoked, the keys of \<^verbatim>\<open>results\<close> other than \<^verbatim>\<open>"stages"\<close>
  and \<^verbatim>\<open>"ai_summary"\<close> have neither been assigned nor changed, \<^verbatim>\<open>results["stages"]\<close> is still a
  dictionary, and only the stage entries of \<open>K\<close> have been written. \<open>keeps R m\<close> says that
  every execution of \<open>m\<close>, whether it raises or not, stays within \<open>R\<close>.
\<close>

definition touches :: "operation set \<Rightarrow> string set \<Rightarrow> run_state \<Rightarrow> run_state \<Rightarrow> bool" where
  "touches M K s s' \<longleftrightarrow>
     (\<exists>evs. calls s' = calls s @ evs \<and> fst ` set evs \<subseteq> M) \<and>
     (\<forall>k. k \<noteq> ''stages'' \<and> k \<noteq> ''ai_summary'' \<longrightarrow> map_of (results s') k = map_of (results s) k) \<and>
     (\<forall>k. k \<noteq> ''ai_summary'' \<longrightarrow> count_list (assigned s') k = count_list (assigned s) k) \<and>
     ((\<exists>st. map_of (results s) ''stages'' = Some (PDict st)) \<longrightarrow>
      (\<exists>st. map_of (results s') ''stages'' = Some (PDict st))) \<and>
     (\<forall>k. k \<notin> K \<longrightarrow> stage_entry s' k = stage_entry s k)"

definition keeps :: "(run_state \<Rightarrow> run_state \<Rightarrow> bool) \<Rightarrow> 'a prog \<Rightarrow> bool" where
  "keeps R m \<longleftrightarrow> (\<forall>s. R s (snd (m s)))"

section \<open>Test doubles\<close>

text \<open>
  A pipeline whose collaborators are stubs: every method ignores its arguments and has the
  fixed outcome given for it. These are the pipelines the concrete runs below use.
\<close>

record stub_outcomes =
  analyze_out :: "dict list result"
  get_code_improvements_out :: "dict result"
  scan_out :: "dict list result"
  assess_security_risks_out :: "dict result"
  run_tests_out :: "dict result"
  get_recent_changes_out :: "dict result"
  suggest_additional_tests_out :: "dict result"
  find_iac_files_out :: "string list result"
  validate_infrastructure_out :: "dict result"
  analyze_infrastructure_changes_out :: "dict result"
  create_deployment_plan_out :: "dict result"
  assess_deployment_risks_out :: "dict result"
  deploy_out :: "dict result"
  generate_build_summary_out :: "dict result"

definition stubbed :: "string \<Rightarrow> string \<Rightarrow> string \<Rightarrow> stub_outcomes \<Rightarrow> AICICDPipeline" where
  "stubbed url br bid out =
     \<lparr>repo_url = url, branch = br, aws_region = ''us-west-2'', build_id = bid,
      code_analyzer =
        \<lparr>analyze = (\<lambda>_. analyze_out out),
         get_recent_changes = (\<lambda>_. get_recent_changes_out out),
         find_iac_files = (\<lambda>_. find_iac_files_out out)\<rparr>,
      test_manager = \<lparr>run_tests = (\<lambda>_. run_tests_out out)\<rparr>,
      security_scanner = \<lparr>scan = (\<lambda>_. scan_out out)\<rparr>,
      deployment_manager =
        \<lparr>validate_infrastructure = (\<lambda>_. validate_infrastructure_out out),
         create_deployment_plan = (\<lambda>_. create_deployment_plan_out out),
         deploy = (\<lambda>_. deploy_out out)\<rparr>,
      ai_assistant =
        \<lparr>get_code_improvements = (\<lambda>_. get_code_improvements_out out),
         assess_security_risks = (\<lambda>_. assess_security_risks_out out),
         suggest_additional_tests = (\<lambda>_ _. suggest_additional_tests_out out),
         analyze_infrastructure_changes = (\<lambda>_. analyze_infrastructure_changes_out out),
         assess_deployment_risks = (\<lambda>_ _ _. assess_deployment_risks_out out),
         generate_build_summary = (\<lambda>_. generate_build_summary_out out)\<rparr>\<rparr>"

text \<open>A clean repository: no issue, no finding, five tests passing, no infrastructure file,
  risk level 1, a deployment that succeeds.\<close>

definition clean_run :: stub_outcomes where
  "clean_run =
     \<lparr>analyze_out = Inr [],
      get_code_improvements_out = Inr [(''suggestions'', PList [])],
      scan_out = Inr [],
      assess_security_risks_out =
        Inr [(''risk_level'', PInt 0), (''analysis'', PStr ''No security issues found.'')],
      run_tests_out =
        Inr [(''passed'', PInt 5), (''failed'', PInt 0), (''coverage'', PFloat (Finite (3 / 4)))],
      get_recent_changes_out = Inr [],
      suggest_additional_tests_out = Inr [(''suggestions'', PList [])],
      find_iac_files_out = Inr [],
      validate_infrastructure_out = Inr [(''valid'', PBool True), (''errors'', PList [])],
      analyze_infrastructure_changes_out = Inr [(''analysis'', PStr ''ok'')],
      create_deployment_plan_out = Inr [(''steps'', PList [])],
      assess_deployment_risks_out = Inr [(''risk_level'', PInt 1)],
      deploy_out = Inr [(''success'', PBool True), (''environment'', PStr ''production'')],
      generate_build_summary_out = Inr [(''conclusion'', PStr ''ok'')]\<rparr>"

definition clock :: "nat \<Rightarrow> string" where
  "clock n = (if n = 0 then ''2024-01-01T10:00:00'' else ''2024-01-01T10:05:00'')"

definition demo :: "stub_outcomes \<Rightarrow> unit result \<times> run_state" where
  "demo out = run_pipeline clock (stubbed ''https://example.org/service'' ''main'' ''build-20240101-100000'' out)"


definition malformed_assessment_run :: stub_outcomes where
  "malformed_assessment_run =
     clean_run\<lparr>assess_deployment_risks_out := Inr [(''analysis'', PStr ''no assessment'')]\<rparr>"

definition vulnerable_run :: stub_outcomes where
  "vulnerable_run =
     clean_run\<lparr>scan_out := Inr [[(''severity'', PStr ''high'')]],
               assess_security_risks_out := Inr [(''risk_level'', PInt 4)],
               assess_deployment_risks_out := Inr [(''risk_level'', PInt 4)]\<rparr>"

definition flawed_run :: stub_outcomes where
  "flawed_run =
     clean_run\<lparr>analyze_out := Inr [[(''rule'', PStr ''unused-import'')]],
               scan_out := Inr [[(''severity'', PStr ''high'')]],
               assess_deployment_risks_out := Inr [(''risk_level'', PInt 0)]\<rparr>"

definition failing_tests_run :: stub_outcomes where
  "failing_tests_run =
     clean_run\<lparr>run_tests_out :=
                 Inr [(''passed'', PInt 0), (''failed'', PInt 5), (''coverage'', PFloat (Finite 0))],
               assess_deployment_risks_out := Inr [(''risk_level'', PInt 0)]\<rparr>"

definition summary_outage_run :: stub_outcomes where
  "summary_outage_run =
     clean_run\<lparr>generate_build_summary_out := Inl (Exception ''assistant unavailable'')\<rparr>"


text \<open>A risk level of 4301 digits, the smallest positive integer that line 139 cannot format.\<close>

definition huge_risk :: int where
  "huge_risk = 10 ^ int_max_str_digits"


text \<open>The test run is interrupted from the keyboard.\<close>

definition interrupted_run :: stub_outcomes where
  "interrupted_run = clean_run\<lparr>run_tests_out := Inl (BaseException ''KeyboardInterrupt'')\<rparr>"

section \<open>Calls that raised\<close>

text \<open>
  \<open>no_raise s\<close>: no collaborator call recorded in \<open>s\<close> has raised. \<open>faithful m\<close>: started in
  such a state, \<open>m\<close> either returns in such a state, or raises, and then every call that has
  raised has raised the exception that \<open>m\<close> ends with.
\<close>

definition no_raise :: "run_state \<Rightarrow> bool" where
  "no_raise s \<longleftrightarrow> (\<forall>m e. (m, Inl e) \<notin> set (calls s))"

definition faithful :: "'a prog \<Rightarrow> bool" where
  "faithful m \<longleftrightarrow>
     (\<forall>s. no_raise s \<longrightarrow>
        (case m s of
           (Inl e, s') \<Rightarrow> (\<forall>m' e'. (m', Inl e') \<in> set (calls s') \<longrightarrow> e' = e)
         | (Inr x, s') \<Rightarrow> no_raise s'))"

section \<open>Comparing two reports\<close>

text \<open>
  \<open>without_run_identity\<close> removes from a report the run identifier and the two timestamps.
  \<open>same_report\<close> relates two states that have recorded the same calls and the same
  assignments and whose reports differ in those three keys at most; \<open>stable m\<close> says that a
  piece of the pipeline run from two such states has the same outcome and ends in two such
  states.
\<close>

definition without_run_identity :: "dict \<Rightarrow> dict" where
  "without_run_identity d =
     AList.delete ''build_id'' (AList.delete ''started_at'' (AList.delete ''completed_at'' d))"

definition same_report :: "run_state \<Rightarrow> run_state \<Rightarrow> bool" where
  "same_report s s' \<longleftrightarrow>
     calls s = calls s' \<and> assigned s = assigned s' \<and>
     without_run_identity (results s) = without_run_identity (results s')"

definition stable :: "'a prog \<Rightarrow> bool" where
  "stable m \<longleftrightarrow>
     (\<forall>s s'. same_report s s' \<longrightarrow> fst (m s) = fst (m s') \<and> same_report (snd (m s)) (snd (m s')))"

section \<open>Properties of the frame relation\<close>

lemma touches_refl: "touches M K s s"
  by (simp add: touches_def)

lemma touchesD_calls: "touches M K a b \<Longrightarrow> \<exists>evs. calls b = calls a @ evs \<and> fst ` set evs \<subseteq> M"
  unfolding touches_def by (elim conjE)

lemma touchesD_results:
  "touches M K a b \<Longrightarrow> k \<noteq> ''stages'' \<Longrightarrow> k \<noteq> ''ai_summary'' \<Longrightarrow> map_of (results b) k = map_of (results a) k"
  unfolding touches_def by blast

lemma touchesD_assigned:
  "touches M K a b \<Longrightarrow> k \<noteq> ''ai_summary'' \<Longrightarrow> count_list (assigned b) k = count_list (assigned a) k"
  unfolding touches_def by blast

lemma touchesD_stages:
  "touches M K a b \<Longrightarrow> map_of (results a) ''stages'' = Some (PDict st) \<Longrightarrow> \<exists>st'. map_of (results b) ''stages'' = Some (PDict st')"
  unfolding touches_def by blast

lemma touchesD_entry:
  "touches M K a b \<Longrightarrow> k \<notin> K \<Longrightarrow> stage_entry b k = stage_entry a k"
  unfolding touches_def by blast

lemma touchesI:
  assumes "\<exists>evs. calls s' = calls s @ evs \<and> fst ` set evs \<subseteq> M"
    and "\<And>k. k \<noteq> ''stages'' \<Longrightarrow> k \<noteq> ''ai_summary'' \<Longrightarrow> map_of (results s') k = map_of (results s) k"
    and "\<And>k. k \<noteq> ''ai_summary'' \<Longrightarrow> count_list (assigned s') k = count_list (assigned s) k"
    and "\<And>st. map_of (results s) ''stages'' = Some (PDict st) \<Longrightarrow> \<exists>st'. map_of (results s') ''stages'' = Some (PDict st')"
    and "\<And>k. k \<notin> K \<Longrightarrow> stage_entry s' k = stage_entry s k"
  shows "touches M K s s'"
  unfolding touches_def using assms by blast

lemma touches_trans:
  assumes ab: "touches M K a b" and bc: "touches M K b c"
  shows "touches M K a c"
proof (rule touchesI)
  from touchesD_calls[OF ab] obtain e1 where e1: "calls b = calls a @ e1" "fst ` set e1 \<subseteq> M" by blast
  from touchesD_calls[OF bc] obtain e2 where e2: "calls c = calls b @ e2" "fst ` set e2 \<subseteq> M" by blast
  from e1 e2 have "calls c = calls a @ (e1 @ e2) \<and> fst ` set (e1 @ e2) \<subseteq> M" by auto
  then show "\<exists>evs. calls c = calls a @ evs \<and> fst ` set evs \<subseteq> M" by blast
next
  fix k :: string assume "k \<noteq> ''stages''" "k \<noteq> ''ai_summary''"
  then show "map_of (results c) k = map_of (results a) k"
    by (simp add: touchesD_results[OF ab] touchesD_results[OF bc])
next
  fix k :: string assume "k \<noteq> ''ai_summary''"
  then show "count_list (assigned c) k = count_list (assigned a) k"
    by (simp add: touchesD_assigned[OF ab] touchesD_assigned[OF bc])
next
  fix st assume "map_of (results a) ''stages'' = Some (PDict st)"
  from touchesD_stages[OF ab this] obtain st' where "map_of (results b) ''stages'' = Some (PDict st')" ..
  from touchesD_stages[OF bc this] show "\<exists>st'. map_of (results c) ''stages'' = Some (PDict st')" .
next
  fix k assume "k \<notin> K"
  then show "stage_entry c k = stage_entry a k"
    by (simp add: touchesD_entry[OF ab] touchesD_entry[OF bc])
qed

lemma touches_mono:
  assumes ab: "touches M K a b" and "M \<subseteq> M'" "K \<subseteq> K'"
  shows "touches M' K' a b"
proof (rule touchesI)
  from touchesD_calls[OF ab] assms(2) show "\<exists>evs. calls b = calls a @ evs \<and> fst ` set evs \<subseteq> M'" by blast
next
  fix k :: string assume "k \<noteq> ''stages''" "k \<noteq> ''ai_summary''"
  then show "map_of (results b) k = map_of (results a) k" by (rule touchesD_results[OF ab])
next
  fix k :: string assume "k \<noteq> ''ai_summary''"
  then show "count_list (assigned b) k = count_list (assigned a) k" by (rule touchesD_assigned[OF ab])
next
  fix st assume "map_of (results a) ''stages'' = Some (PDict st)"
  then show "\<exists>st'. map_of (results b) ''stages'' = Some (PDict st')" by (rule touchesD_stages[OF ab])
next
  fix k assume "k \<notin> K'"
  with assms(3) have "k \<notin> K" by blast
  then show "stage_entry b k = stage_entry a k" by (rule touchesD_entry[OF ab])
qed

lemma keeps_bind:
  assumes "keeps (touches M K) m" and "\<And>x. keeps (touches M K) (f x)"
  shows "keeps (touches M K) (bind_prog m f)"
  unfolding keeps_def
proof
  fix s
  obtain r s1 where m: "m s = (r, s1)" by (cases "m s")
  from assms(1) have "touches M K s (snd (m s))" unfolding keeps_def by (rule spec)
  with m have t1: "touches M K s s1" by simp
  show "touches M K s (snd (bind_prog m f s))"
  proof (cases r)
    case (Inl e)
    with m t1 show ?thesis by (simp add: bind_prog_def)
  next
    case (Inr x)
    from assms(2)[of x] have "touches M K s1 (snd (f x s1))" unfolding keeps_def by (rule spec)
    with t1 have "touches M K s (snd (f x s1))" by (rule touches_trans)
    with m Inr show ?thesis by (simp add: bind_prog_def)
  qed
qed

lemma keeps_if: "keeps R a \<Longrightarrow> keeps R b \<Longrightarrow> keeps R (if c then a else b)"
  by simp

lemma keeps_invoke: "m \<in> M \<Longrightarrow> keeps (touches M K) (invoke m w r)"
  unfolding keeps_def
proof
  fix s assume m: "m \<in> M"
  have "touches M K s (s\<lparr>calls := calls s @ [(m, map_sum id w r)]\<rparr>)"
  proof (rule touchesI)
    from m show "\<exists>evs. calls (s\<lparr>calls := calls s @ [(m, map_sum id w r)]\<rparr>) = calls s @ evs \<and> fst ` set evs \<subseteq> M"
      by (intro exI[of _ "[(m, map_sum id w r)]"]) simp
  qed (simp_all add: stage_entry_def)
  then show "touches M K s (snd (invoke m w r s))" by (simp add: invoke_def)
qed

lemma keeps_expr: "keeps (touches M K) (expr r)"
  by (simp add: keeps_def expr_def touches_refl)

lemma keeps_ret: "keeps (touches M K) (ret x)"
  by (simp add: keeps_def ret_def touches_refl)

lemma keeps_results_stages: "keeps (touches M K) results_stages"
  by (simp add: keeps_def results_stages_def touches_refl)

lemma keeps_read_results: "keeps (touches M K) read_results"
  by (simp add: keeps_def read_results_def touches_refl)

lemma getitem_dict: "py_getitem (PDict d) k = Inr v \<longleftrightarrow> map_of d k = Some v"
  by (cases "map_of d k") simp_all

lemma setitem_dict: "py_setitem x k v = Inr y \<longleftrightarrow> (\<exists>d. x = PDict d \<and> y = PDict (AList.update k v d))"
  by (cases x) auto

lemma keeps_stages_setitem: "k \<in> K \<Longrightarrow> keeps (touches M K) (stages_setitem k e)"
  unfolding keeps_def
proof
  fix s
  assume k: "k \<in> K"
  show "touches M K s (snd (stages_setitem k e s))"
  proof (cases "py_getitem (PDict (results s)) ''stages''")
    case (Inl a)
    then show ?thesis by (simp add: stages_setitem_def touches_refl)
  next
    case st: (Inr st)
    show ?thesis
    proof (cases "py_setitem st k (PDict e)")
      case (Inl a)
      with st show ?thesis by (simp add: stages_setitem_def touches_refl)
    next
      case (Inr st')
      then obtain d where d: "st = PDict d" "st' = PDict (AList.update k (PDict e) d)"
        unfolding setitem_dict by blast
      from st[unfolded d(1)] have m: "map_of (results s) ''stages'' = Some (PDict d)"
        by (rule iffD1[OF getitem_dict])
      define s' where "s' = s\<lparr>results := AList.update ''stages'' st' (results s)\<rparr>"
      have eq: "snd (stages_setitem k e s) = s'"
        using st Inr by (simp add: stages_setitem_def s'_def)
      have "touches M K s s'"
      proof (rule touchesI)
        show "\<exists>evs. calls s' = calls s @ evs \<and> fst ` set evs \<subseteq> M"
          by (intro exI[of _ "[]"]) (simp add: s'_def)
      next
        fix k' :: string assume "k' \<noteq> ''stages''"
        then show "map_of (results s') k' = map_of (results s) k'"
          by (simp add: s'_def AList.update_conv')
      next
        fix k' :: string
        show "count_list (assigned s') k' = count_list (assigned s) k'" by (simp add: s'_def)
      next
        show "\<exists>st'. map_of (results s') ''stages'' = Some (PDict st')"
          by (simp add: s'_def AList.update_conv' d)
      next
        fix k' assume "k' \<notin> K"
        with k have "k' \<noteq> k" by blast
        then show "stage_entry s' k' = stage_entry s k'"
          by (simp add: s'_def stage_entry_def AList.update_conv' d m)
      qed
      with eq show ?thesis by simp
    qed
  qed
qed

lemma keeps_ai_summary: "keeps (touches M K) (\<lambda>s. (Inr (), results_setitem ''ai_summary'' v s))"
  unfolding keeps_def
proof
  fix s
  define s' where "s' = results_setitem ''ai_summary'' v s"
  have "touches M K s s'"
  proof (rule touchesI)
    show "\<exists>evs. calls s' = calls s @ evs \<and> fst ` set evs \<subseteq> M"
      by (intro exI[of _ "[]"]) (simp add: s'_def results_setitem_def)
  next
    fix k' :: string assume "k' \<noteq> ''ai_summary''"
    then show "map_of (results s') k' = map_of (results s) k'"
      by (simp add: s'_def results_setitem_def AList.update_conv')
  next
    fix k' :: string assume "k' \<noteq> ''ai_summary''"
    then show "count_list (assigned s') k' = count_list (assigned s) k'"
      by (simp add: s'_def results_setitem_def)
  next
    fix st assume "map_of (results s) ''stages'' = Some (PDict st)"
    then show "\<exists>st'. map_of (results s') ''stages'' = Some (PDict st')"
      by (simp add: s'_def results_setitem_def AList.update_conv')
  next
    fix k'
    show "stage_entry s' k' = stage_entry s k'"
      by (simp add: s'_def results_setitem_def stage_entry_def AList.update_conv')
  qed
  then show "touches M K s (snd (Inr (), results_setitem ''ai_summary'' v s))" by (simp add: s'_def)
qed

lemma keeps_mono: "keeps (touches M K) m \<Longrightarrow> M \<subseteq> M' \<Longrightarrow> K \<subseteq> K' \<Longrightarrow> keeps (touches M' K') m"
  unfolding keeps_def using touches_mono by blast

lemmas keeps_rules = keeps_bind keeps_if keeps_invoke keeps_expr keeps_ret keeps_results_stages
  keeps_read_results keeps_stages_setitem keeps_ai_summary

lemma keeps_code_analysis:
  "keeps (touches {Analyze, GetCodeImprovements} {''code_analysis''}) (code_analysis_stage self rp)"
  unfolding code_analysis_stage_def by (intro keeps_rules) simp_all

section \<open>What each stage touches\<close>

lemma keeps_security_scan:
  "keeps (touches {Scan, AssessSecurityRisks} {''security_scan''}) (security_scan_stage self rp)"
  unfolding security_scan_stage_def by (intro keeps_rules) simp_all

lemma keeps_testing:
  "keeps (touches {RunTests, GetRecentChanges, SuggestAdditionalTests} {''testing''}) (testing_stage self rp)"
  unfolding testing_stage_def by (intro keeps_rules) simp_all

lemma keeps_infrastructure_validation:
  "keeps (touches {FindIacFiles, ValidateInfrastructure, AnalyzeInfrastructureChanges}
      {''infrastructure_validation''}) (infrastructure_validation_stage self rp)"
  unfolding infrastructure_validation_stage_def by (intro keeps_rules) simp_all

lemma keeps_deploy_or_halt:
  "keeps (touches {CreateDeploymentPlan, AssessDeploymentRisks, Deploy} {''deployment''})
     (deploy_or_halt self plan risks)"
  unfolding deploy_or_halt_def by (intro keeps_rules) simp_all

lemma keeps_deployment:
  "keeps (touches {CreateDeploymentPlan, AssessDeploymentRisks, Deploy} {''deployment''})
     (deployment_stage self rp)"
  unfolding deployment_stage_def by (intro keeps_rules keeps_deploy_or_halt) simp_all

lemma keeps_build_summary:
  "keeps (touches {GenerateBuildSummary} {}) (build_summary self)"
  unfolding build_summary_def by (intro keeps_rules) simp_all

lemma keeps_analysis_stages:
  "keeps (touches {Analyze, GetCodeImprovements, Scan, AssessSecurityRisks, RunTests,
       GetRecentChanges, SuggestAdditionalTests} {''code_analysis'', ''security_scan'', ''testing''})
     (analysis_stages self rp)"
  unfolding analysis_stages_def
  by (intro keeps_bind keeps_mono[OF keeps_code_analysis] keeps_mono[OF keeps_security_scan]
      keeps_mono[OF keeps_testing]) simp_all

lemma bind_prog_assoc: "bind_prog (bind_prog m f) g = bind_prog m (\<lambda>x. bind_prog (f x) g)"
proof
  fix s
  obtain r s1 where m: "m s = (r, s1)" by (cases "m s")
  show "bind_prog (bind_prog m f) g s = bind_prog m (\<lambda>x. bind_prog (f x) g) s"
    by (cases r) (simp_all add: bind_prog_def m)
qed

lemma bind_ret: "bind_prog (ret x) f = f x"
  by (rule ext) (simp add: bind_prog_def ret_def)

lemma try_block_split:
  "try_block self =
     bind_prog (analysis_stages self (repo_path_of self)) (\<lambda>_.
     bind_prog (infrastructure_validation_stage self (repo_path_of self)) (\<lambda>_.
     bind_prog (deployment_stage self (repo_path_of self)) (\<lambda>_.
     build_summary self)))"
  by (simp add: try_block_def clone_repository_def bind_ret analysis_stages_def
      bind_prog_assoc repo_path_of_def)

section \<open>The handlers and the whole run\<close>

lemma keeps_try_block:
  "keeps (touches UNIV UNIV) (try_block self)"
  unfolding try_block_split
  by (intro keeps_bind keeps_mono[OF keeps_analysis_stages]
      keeps_mono[OF keeps_infrastructure_validation] keeps_mono[OF keeps_deployment]
      keeps_mono[OF keeps_build_summary]) simp_all

lemma keepsD: "keeps R m \<Longrightarrow> m s = (r, s') \<Longrightarrow> R s s'"
  unfolding keeps_def by (drule spec[of _ s]) simp

lemma touches_calls_other:
  assumes "touches M K a b" and "m \<notin> M"
  shows "(m, x) \<in> set (calls b) \<longleftrightarrow> (m, x) \<in> set (calls a)"
proof -
  from touchesD_calls[OF assms(1)] obtain evs where e: "calls b = calls a @ evs" "fst ` set evs \<subseteq> M"
    by blast
  from e(2) assms(2) have "(m, x) \<notin> set evs" by force
  with e(1) show ?thesis by simp
qed

lemma touches_invoked_other:
  assumes "touches M K a b" and "m \<notin> M"
  shows "count_list (invoked b) m = count_list (invoked a) m"
proof -
  from touchesD_calls[OF assms(1)] obtain evs where e: "calls b = calls a @ evs" "fst ` set evs \<subseteq> M"
    by blast
  from e(2) assms(2) have "m \<notin> set (map fst evs)" by auto
  then have "count_list (map fst evs) m = 0" by simp
  with e(1) show ?thesis by (simp add: invoked_def)
qed

lemma three_less_huge: "3 < huge_risk"
proof -
  have "(10::int) \<le> 10 ^ int_max_str_digits"
    by (rule self_le_power) (simp_all add: int_max_str_digits_def)
  then show ?thesis by (simp add: huge_risk_def)
qed

lemma huge_risk_facts:
  "py_le_int (PInt huge_risk) 3 = Inr False"
  "printable (PInt huge_risk) = False"
  using three_less_huge by (simp_all add: huge_risk_def)

lemma printable_small: "\<bar>i\<bar> < 10 \<Longrightarrow> printable (PInt i)"
proof -
  assume a: "\<bar>i\<bar> < 10"
  have "(10::int) \<le> 10 ^ int_max_str_digits"
    by (rule self_le_power) (simp_all add: int_max_str_digits_def)
  with a show ?thesis by simp
qed

lemma printable_float: "printable (PFloat f)"
  by simp

lemma handlers_calls: "calls (snd (handlers now (r, s))) = calls s"
  by (simp add: handlers_def results_setitem_def split: sum.splits)

lemma handlers_stage_entry: "stage_entry (snd (handlers now (r, s))) k = stage_entry s k"
  by (simp add: handlers_def results_setitem_def stage_entry_def AList.update_conv' split: sum.splits)

lemma handlers_returns:
  "handlers now (Inr u, s) =
     (Inr (), results_setitem ''completed_at'' (PStr (now 1)) (results_setitem ''success'' (PBool True) s))"
  by (simp add: handlers_def)

lemma handlers_caught:
  "is_exception e \<Longrightarrow> str_exc e = Inr msg \<Longrightarrow>
   handlers now (Inl e, s) =
     (Inr (), results_setitem ''completed_at'' (PStr (now 1))
                (results_setitem ''success'' (PBool False) (results_setitem ''error'' (PStr msg) s)))"
  by (simp add: handlers_def)

lemma handlers_uncaught:
  "\<not> is_exception e \<Longrightarrow>
   handlers now (Inl e, s) = (Inl e, results_setitem ''completed_at'' (PStr (now 1)) s)"
  by (simp add: handlers_def)

lemma handlers_unprintable:
  "is_exception e \<Longrightarrow> str_exc e = Inl e' \<Longrightarrow>
   handlers now (Inl e, s) = (Inl e', results_setitem ''completed_at'' (PStr (now 1)) s)"
  by (simp add: handlers_def)

lemma setitem_lookup:
  "map_of (results (results_setitem k v s)) k' = (if k' = k then Some v else map_of (results s) k')"
  "assigned (results_setitem k v s) = assigned s @ [k]"
  "calls (results_setitem k v s) = calls s"
  by (simp_all add: results_setitem_def AList.update_conv')

lemma handlers_identity:
  assumes "k \<noteq> ''error''" "k \<noteq> ''success''" "k \<noteq> ''completed_at''"
  shows "map_of (results (snd (handlers now (r, s)))) k = map_of (results s) k"
  using assms by (simp add: handlers_def setitem_lookup split: sum.splits)

lemma handlers_completed:
  "map_of (results (snd (handlers now (r, s)))) ''completed_at'' = Some (PStr (now 1))"
  "count_list (assigned (snd (handlers now (r, s)))) ''completed_at'' =
     count_list (assigned s) ''completed_at'' + 1"
  by (simp_all add: handlers_def setitem_lookup split: sum.splits)

section \<open>The run as a whole\<close>

lemma run_pipeline_eq:
  "try_block self (initial_state now self) = (r, s) \<Longrightarrow> run_pipeline now self = handlers now (r, s)"
  by (simp add: run_pipeline_def)

lemma try_block_frame:
  "try_block self (initial_state now self) = (r, s) \<Longrightarrow> touches UNIV UNIV (initial_state now self) s"
  by (rule keepsD[OF keeps_try_block])

lemma initial_lookup:
  "map_of (results (initial_state now self)) ''build_id'' = Some (PStr (build_id self))"
  "map_of (results (initial_state now self)) ''repository'' = Some (PStr (repo_url self))"
  "map_of (results (initial_state now self)) ''branch'' = Some (PStr (branch self))"
  "map_of (results (initial_state now self)) ''started_at'' = Some (PStr (now 0))"
  "map_of (results (initial_state now self)) ''stages'' = Some (PDict [])"
  "map_of (results (initial_state now self)) ''error'' = None"
  "map_of (results (initial_state now self)) ''success'' = None"
  "map_of (results (initial_state now self)) ''completed_at'' = None"
  "calls (initial_state now self) = []"
  "assigned (initial_state now self) = []"
  by (simp_all add: initial_state_def initial_results_def)

section \<open>Executing the deployment gate\<close>

lemma bind_invoke:
  "bind_prog (invoke m w r) f s =
     (case r of
        Inl e \<Rightarrow> (Inl e, s\<lparr>calls := calls s @ [(m, Inl e)]\<rparr>)
      | Inr x \<Rightarrow> f x (s\<lparr>calls := calls s @ [(m, Inr (w x))]\<rparr>))"
  by (cases r) (simp_all add: bind_prog_def invoke_def)

lemma bind_expr: "bind_prog (expr r) f s = (case r of Inl e \<Rightarrow> (Inl e, s) | Inr x \<Rightarrow> f x s)"
  by (cases r) (simp_all add: bind_prog_def expr_def)

lemma bind_results_stages:
  "bind_prog results_stages f s =
     (case py_getitem (PDict (results s)) ''stages'' of Inl e \<Rightarrow> (Inl e, s) | Inr v \<Rightarrow> f v s)"
  by (cases "py_getitem (PDict (results s)) ''stages''") (simp_all add: bind_prog_def results_stages_def)

lemma bind_read_results: "bind_prog read_results f s = f (results s) s"
  by (simp add: bind_prog_def read_results_def)

lemma bind_prog_cases:
  obtains (raised) e s1 where "m s = (Inl e, s1)" "bind_prog m f s = (Inl e, s1)"
        | (returned) x s1 where "m s = (Inr x, s1)" "bind_prog m f s = f x s1"
proof -
  obtain r s1 where m: "m s = (r, s1)" by (cases "m s")
  show thesis
  proof (cases r)
    case (Inl e)
    with m have "m s = (Inl e, s1)" "bind_prog m f s = (Inl e, s1)" by (simp_all add: bind_prog_def)
    then show thesis by (rule raised)
  next
    case (Inr x)
    with m have "m s = (Inr x, s1)" "bind_prog m f s = f x s1" by (simp_all add: bind_prog_def)
    then show thesis by (rule returned)
  qed
qed

lemma keeps_deploy_or_halt_only:
  "keeps (touches {Deploy} {''deployment''}) (deploy_or_halt self plan risks)"
  unfolding deploy_or_halt_def by (intro keeps_rules) simp_all

lemma keeps_before_deployment:
  "keeps (touches {Analyze, GetCodeImprovements, Scan, AssessSecurityRisks, RunTests,
       GetRecentChanges, SuggestAdditionalTests, FindIacFiles, ValidateInfrastructure,
       AnalyzeInfrastructureChanges}
       {''code_analysis'', ''security_scan'', ''testing'', ''infrastructure_validation''})
     (before_deployment self rp)"
  unfolding before_deployment_def
  by (intro keeps_bind keeps_mono[OF keeps_analysis_stages]
      keeps_mono[OF keeps_infrastructure_validation]) simp_all

lemma try_block_gate:
  "try_block self =
     bind_prog (before_deployment self (repo_path_of self)) (\<lambda>_.
     bind_prog (deployment_stage self (repo_path_of self)) (\<lambda>_.
     build_summary self))"
  by (simp add: try_block_split before_deployment_def bind_prog_assoc)

lemma deploy_or_halt_refused:
  assumes "map_of (results s) ''stages'' = Some (PDict st)"
    and "map_of risks ''risk_level'' = Some v" and "py_le_int v 3 = Inr False"
  shows "deploy_or_halt self plan risks s =
    (case py_format v of
       Inl e \<Rightarrow> (Inl e, s)
     | Inr _ \<Rightarrow>
        (Inr (), s\<lparr>results := AList.update ''stages''
           (PDict (AList.update ''deployment''
              (PDict [(''success'', PBool False), (''halted_reason'', PStr ''High risk assessment''),
                      (''ai_risk_assessment'', PDict risks)]) st)) (results s)\<rparr>))"
  by (simp add: deploy_or_halt_def bind_expr stages_setitem_def assms split: sum.splits)

lemma deploy_or_halt_halts:
  assumes "map_of (results s) ''stages'' = Some (PDict st)"
    and "map_of risks ''risk_level'' = Some v" and "py_le_int v 3 = Inr False"
    and "printable v"
  shows "deploy_or_halt self plan risks s =
    (Inr (), s\<lparr>results := AList.update ''stages''
       (PDict (AList.update ''deployment''
          (PDict [(''success'', PBool False), (''halted_reason'', PStr ''High risk assessment''),
                  (''ai_risk_assessment'', PDict risks)]) st)) (results s)\<rparr>)"
  by (simp add: deploy_or_halt_refused[OF assms(1-3)] py_format_def assms(4))

lemma deploy_or_halt_unformatted:
  assumes "map_of (results s) ''stages'' = Some (PDict st)"
    and "map_of risks ''risk_level'' = Some v" and "py_le_int v 3 = Inr False"
    and "\<not> printable v"
  shows "\<exists>msg. deploy_or_halt self plan risks s = (Inl (ValueError msg), s)"
  by (simp add: deploy_or_halt_refused[OF assms(1-3)] py_format_def assms(4))


lemma deployment_stage_closed:
  assumes "map_of (results s) ''stages'' = Some (PDict st)"
    and "all_passed (map snd st) \<noteq> Inr True"
  shows "snd (deployment_stage self rp s) = s"
proof (cases "all_passed (map snd st)")
  case (Inl e)
  then show ?thesis
    by (simp add: deployment_stage_def bind_results_stages bind_expr assms(1))
next
  case (Inr ok)
  with assms(2) have "ok = False" by simp
  with Inr show ?thesis
    by (simp add: deployment_stage_def bind_results_stages bind_expr assms(1) ret_def)
qed

lemma not_called:
  "m \<notin> fst ` set (calls s) \<Longrightarrow> (m, x) \<notin> set (calls s)"
  by force

lemma deployment_stage_assessed:
  assumes st: "map_of (results s) ''stages'' = Some (PDict st)"
    and new: "(AssessDeploymentRisks, Inr (PDict risks)) \<in> set (calls (snd (deployment_stage self rp s)))"
    and old: "AssessDeploymentRisks \<notin> fst ` set (calls s)"
  shows "\<exists>plan. deployment_stage self rp s =
           deploy_or_halt self plan risks
             (s\<lparr>calls := calls s @ [(CreateDeploymentPlan, Inr (PDict plan)),
                                      (AssessDeploymentRisks, Inr (PDict risks))]\<rparr>)"
proof -
  note no = not_called[OF old]
  have ok: "all_passed (map snd st) = Inr True"
  proof (rule ccontr)
    assume "all_passed (map snd st) \<noteq> Inr True"
    from deployment_stage_closed[OF st this] new no show False by simp
  qed
  show ?thesis
  proof (cases "create_deployment_plan (deployment_manager self) rp")
    case (Inl e)
    with new no show ?thesis
      by (simp add: deployment_stage_def bind_results_stages bind_expr bind_invoke st ok)
  next
    case plan: (Inr plan)
    show ?thesis
    proof (cases "map_of st ''testing''")
      case None
      with new no plan show ?thesis
        by (simp add: deployment_stage_def bind_results_stages bind_expr bind_invoke st ok)
    next
      case (Some testing)
      define infra where "infra = (case map_of st ''infrastructure_validation'' of None \<Rightarrow> PDict [] | Some v \<Rightarrow> v)"
      have g: "py_get (PDict st) ''infrastructure_validation'' (PDict []) = Inr infra"
        by (simp add: infra_def split: option.splits)
      define s2 where "s2 = s\<lparr>calls := calls s @ [(CreateDeploymentPlan, Inr (PDict plan))]\<rparr>"
      show ?thesis
      proof (cases "assess_deployment_risks (ai_assistant self) plan testing infra")
        case (Inl e)
        have "deployment_stage self rp s =
            (Inl e, s\<lparr>calls := calls s @ [(CreateDeploymentPlan, Inr (PDict plan)),
                                           (AssessDeploymentRisks, Inl e)]\<rparr>)"
          using plan Some Inl g[unfolded py_get.simps]
          by (simp add: deployment_stage_def bind_results_stages bind_expr bind_invoke st ok)
        with new no show ?thesis by simp
      next
        case (Inr risks')
        define s3 where "s3 = s\<lparr>calls := calls s @ [(CreateDeploymentPlan, Inr (PDict plan)),
                                           (AssessDeploymentRisks, Inr (PDict risks'))]\<rparr>"
        have eq: "deployment_stage self rp s = deploy_or_halt self plan risks' s3"
          using plan Some Inr g[unfolded py_get.simps]
          by (simp add: deployment_stage_def bind_results_stages bind_expr bind_invoke st ok s3_def)
        obtain r s4 where d: "deploy_or_halt self plan risks' s3 = (r, s4)"
          by (cases "deploy_or_halt self plan risks' s3")
        have t: "touches {Deploy} {''deployment''} s3 s4"
          by (rule keepsD[OF keeps_deploy_or_halt_only d])
        from new eq d have "(AssessDeploymentRisks, Inr (PDict risks)) \<in> set (calls s4)" by simp
        with touches_calls_other[OF t, of AssessDeploymentRisks "Inr (PDict risks)"]
        have "(AssessDeploymentRisks, Inr (PDict risks)) \<in> set (calls s3)" by simp
        with no have "risks' = risks" by (simp add: s3_def)
        with eq show ?thesis unfolding s3_def by blast
      qed
    qed
  qed
qed

lemma gate_state:
  assumes b: "before_deployment self rp (initial_state now self) = (r, s4)"
  shows "\<exists>st. map_of (results s4) ''stages'' = Some (PDict st)"
    and "m \<in> {CreateDeploymentPlan, AssessDeploymentRisks, Deploy, GenerateBuildSummary}
           \<Longrightarrow> m \<notin> fst ` set (calls s4)"
    and "stage_entry s4 ''deployment'' = None"
proof -
  note t = keepsD[OF keeps_before_deployment b]
  from touchesD_stages[OF t] show "\<exists>st. map_of (results s4) ''stages'' = Some (PDict st)"
    by (simp add: initial_lookup)
  from touchesD_entry[OF t, of "''deployment''"] show "stage_entry s4 ''deployment'' = None"
    by (simp add: stage_entry_def initial_lookup)
  assume m: "m \<in> {CreateDeploymentPlan, AssessDeploymentRisks, Deploy, GenerateBuildSummary}"
  from touchesD_calls[OF t] obtain evs where e: "calls s4 = evs"
    "fst ` set evs \<subseteq> {Analyze, GetCodeImprovements, Scan, AssessSecurityRisks, RunTests,
       GetRecentChanges, SuggestAdditionalTests, FindIacFiles, ValidateInfrastructure,
       AnalyzeInfrastructureChanges}"
    by (auto simp add: initial_lookup)
  from m e(2) show "m \<notin> fst ` set (calls s4)" unfolding e(1) by auto
qed

lemma run_before_gate:
  assumes "before_deployment self (repo_path_of self) (initial_state now self) = (Inl e, s4)"
  shows "run_pipeline now self = handlers now (Inl e, s4)"
  by (simp add: run_pipeline_def try_block_gate bind_prog_def assms)

lemma run_from_gate:
  assumes "before_deployment self (repo_path_of self) (initial_state now self) = (Inr u, s4)"
  shows "run_pipeline now self =
     handlers now (bind_prog (deployment_stage self (repo_path_of self)) (\<lambda>_. build_summary self) s4)"
  by (simp add: run_pipeline_def try_block_gate bind_prog_def[of "before_deployment self (repo_path_of self)"] assms)

lemma build_summary_run:
  "build_summary self s =
     (case generate_build_summary (ai_assistant self) (results s) of
        Inl e \<Rightarrow> (Inl e, s\<lparr>calls := calls s @ [(GenerateBuildSummary, Inl e)]\<rparr>)
      | Inr d \<Rightarrow> (Inr (), results_setitem ''ai_summary'' (PDict d)
                           (s\<lparr>calls := calls s @ [(GenerateBuildSummary, Inr (PDict d))]\<rparr>)))"
  by (simp add: build_summary_def bind_read_results bind_invoke split: sum.splits)


lemma report_after_gate:
  assumes b: "before_deployment self (repo_path_of self) (initial_state now self) = (Inr u, s4)"
    and d: "deployment_stage self (repo_path_of self) s4 = (r5, s5)"
  shows "stage_entry (snd (run_pipeline now self)) k = stage_entry s5 k"
    and "m \<noteq> GenerateBuildSummary \<Longrightarrow>
           (m, x) \<in> set (calls (snd (run_pipeline now self))) \<longleftrightarrow> (m, x) \<in> set (calls s5)"
    and "m \<noteq> GenerateBuildSummary \<Longrightarrow>
           count_list (invoked (snd (run_pipeline now self))) m = count_list (invoked s5) m"
proof -
  obtain r6 s6 where f: "bind_prog (deployment_stage self (repo_path_of self)) (\<lambda>_. build_summary self) s4 = (r6, s6)"
    and t: "touches {GenerateBuildSummary} {} s5 s6"
  proof (cases r5)
    case (Inl e)
    with d have "bind_prog (deployment_stage self (repo_path_of self)) (\<lambda>_. build_summary self) s4 = (Inl e, s5)"
      by (simp add: bind_prog_def)
    then show thesis using touches_refl by (rule that)
  next
    case (Inr w)
    obtain r6 s6 where g: "build_summary self s5 = (r6, s6)" by (cases "build_summary self s5")
    with d Inr have "bind_prog (deployment_stage self (repo_path_of self)) (\<lambda>_. build_summary self) s4 = (r6, s6)"
      by (simp add: bind_prog_def)
    then show thesis using keepsD[OF keeps_build_summary g] by (rule that)
  qed
  have run: "run_pipeline now self = handlers now (r6, s6)"
    by (simp add: run_from_gate[OF b] f)
  show "stage_entry (snd (run_pipeline now self)) k = stage_entry s5 k"
    using touchesD_entry[OF t, of k] by (simp add: run handlers_stage_entry)
  assume m: "m \<noteq> GenerateBuildSummary"
  show "(m, x) \<in> set (calls (snd (run_pipeline now self))) \<longleftrightarrow> (m, x) \<in> set (calls s5)"
    using touches_calls_other[OF t, of m x] m by (simp add: run handlers_calls)
  show "count_list (invoked (snd (run_pipeline now self))) m = count_list (invoked s5) m"
    using touches_invoked_other[OF t, of m] m by (simp add: run handlers_calls invoked_def)
qed

section \<open>A call that raised ends the attempt\<close>

lemma faithfulI:
  assumes "\<And>s e s' m' e'. no_raise s \<Longrightarrow> m s = (Inl e, s') \<Longrightarrow> (m', Inl e') \<in> set (calls s') \<Longrightarrow> e' = e"
    and "\<And>s x s'. no_raise s \<Longrightarrow> m s = (Inr x, s') \<Longrightarrow> no_raise s'"
  shows "faithful m"
  unfolding faithful_def
proof (intro allI impI)
  fix s assume n: "no_raise s"
  obtain r s' where ms: "m s = (r, s')" by (cases "m s")
  show "case m s of (Inl e, s') \<Rightarrow> \<forall>m' e'. (m', Inl e') \<in> set (calls s') \<longrightarrow> e' = e
                  | (Inr x, s') \<Rightarrow> no_raise s'"
  proof (cases r)
    case (Inl e)
    with ms assms(1)[OF n] show ?thesis by simp
  next
    case (Inr x)
    with ms assms(2)[OF n] show ?thesis by simp
  qed
qed

lemma faithful_raised:
  "faithful m \<Longrightarrow> no_raise s \<Longrightarrow> m s = (Inl e, s') \<Longrightarrow> (m', Inl e') \<in> set (calls s') \<Longrightarrow> e' = e"
  unfolding faithful_def by (drule spec[of _ s]) auto

lemma faithful_returned:
  "faithful m \<Longrightarrow> no_raise s \<Longrightarrow> m s = (Inr x, s') \<Longrightarrow> no_raise s'"
  unfolding faithful_def by (drule spec[of _ s]) auto

lemma faithful_bind:
  assumes m: "faithful m" and f: "\<And>x. faithful (f x)"
  shows "faithful (bind_prog m f)"
proof (rule faithfulI)
  fix s e s' m' e'
  assume n: "no_raise s" and b: "bind_prog m f s = (Inl e, s')" and c: "(m', Inl e') \<in> set (calls s')"
  show "e' = e"
  proof (cases rule: bind_prog_cases[of m s f])
    case (raised e0 s1)
    with b have "m s = (Inl e, s')" by simp
    from faithful_raised[OF m n this c] show ?thesis .
  next
    case (returned x s1)
    from faithful_returned[OF m n returned(1)] have n1: "no_raise s1" .
    from returned(2) b have "f x s1 = (Inl e, s')" by simp
    from faithful_raised[OF f n1 this c] show ?thesis .
  qed
next
  fix s x s'
  assume n: "no_raise s" and b: "bind_prog m f s = (Inr x, s')"
  show "no_raise s'"
  proof (cases rule: bind_prog_cases[of m s f])
    case (raised e0 s1)
    with b show ?thesis by simp
  next
    case (returned y s1)
    from faithful_returned[OF m n returned(1)] have n1: "no_raise s1" .
    from returned(2) b have "f y s1 = (Inr x, s')" by simp
    from faithful_returned[OF f n1 this] show ?thesis .
  qed
qed

lemma faithful_if: "faithful a \<Longrightarrow> faithful b \<Longrightarrow> faithful (if c then a else b)"
  by simp

lemma faithful_invoke: "faithful (invoke m w r)"
  by (rule faithfulI) (auto simp add: invoke_def no_raise_def)

lemma faithful_expr: "faithful (expr r)"
  by (rule faithfulI) (auto simp add: expr_def no_raise_def)

lemma faithful_ret: "faithful (ret x)"
  by (rule faithfulI) (auto simp add: ret_def no_raise_def)

lemma faithful_results_stages: "faithful results_stages"
  by (rule faithfulI) (auto simp add: results_stages_def no_raise_def)

lemma faithful_read_results: "faithful read_results"
  by (rule faithfulI) (auto simp add: read_results_def no_raise_def)

lemma faithful_stages_setitem: "faithful (stages_setitem k e)"
  by (rule faithfulI) (auto simp add: stages_setitem_def no_raise_def split: sum.splits)

lemma faithful_ai_summary: "faithful (\<lambda>s. (Inr (), results_setitem ''ai_summary'' v s))"
  by (rule faithfulI) (auto simp add: results_setitem_def no_raise_def)

lemmas faithful_rules = faithful_bind faithful_if faithful_invoke faithful_expr faithful_ret
  faithful_results_stages faithful_read_results faithful_stages_setitem faithful_ai_summary

lemma faithful_try_block: "faithful (try_block self)"
  unfolding try_block_def clone_repository_def code_analysis_stage_def security_scan_stage_def
    testing_stage_def infrastructure_validation_stage_def deployment_stage_def deploy_or_halt_def
    build_summary_def
  by (intro faithful_rules)

lemma raised_call_is_outcome:
  assumes "(m, Inl e) \<in> set (calls (snd (run_pipeline now self)))"
  shows "fst (try_block self (initial_state now self)) = Inl e"
proof -
  obtain r s where rs: "try_block self (initial_state now self) = (r, s)"
    by (cases "try_block self (initial_state now self)")
  have n: "no_raise (initial_state now self)" by (simp add: no_raise_def initial_lookup)
  from assms have c: "(m, Inl e) \<in> set (calls s)"
    by (simp add: run_pipeline_eq[OF rs] handlers_calls)
  show ?thesis
  proof (cases r)
    case (Inl e0)
    from faithful_raised[OF faithful_try_block n rs[unfolded Inl] c] Inl rs show ?thesis by simp
  next
    case (Inr x)
    from faithful_returned[OF faithful_try_block n rs[unfolded Inr]] c show ?thesis
      by (simp add: no_raise_def)
  qed
qed

section \<open>Concrete runs of the test doubles\<close>

lemma below_limit: "i < 10 \<Longrightarrow> (i < 10 ^ int_max_str_digits) = True" for i :: int
proof -
  assume a: "i < 10"
  have "(10::int) \<le> 10 ^ int_max_str_digits"
    by (rule self_le_power) (simp_all add: int_max_str_digits_def)
  with a show ?thesis by simp
qed

lemma huge_risk_limit:
  "(\<bar>huge_risk\<bar> < 10 ^ int_max_str_digits) = False"
  "(huge_risk \<le> 3) = False"
  using three_less_huge by (simp_all add: huge_risk_def)

lemmas run_defs = demo_def run_pipeline_def handlers_def try_block_def clone_repository_def
  code_analysis_stage_def security_scan_stage_def testing_stage_def
  infrastructure_validation_stage_def deployment_stage_def deploy_or_halt_def build_summary_def
  initial_state_def initial_results_def bind_prog_def invoke_def expr_def ret_def
  results_stages_def read_results_def stages_setitem_def results_setitem_def stubbed_def
  clock_def dicts_def strs_def py_format_def below_limit huge_risk_limit

lemma demo_clean_run:
  "demo clean_run =
     (Inr (),
      \<lparr>results =
         [(''build_id'', PStr ''build-20240101-100000''),
          (''repository'', PStr ''https://example.org/service''),
          (''branch'', PStr ''main''),
          (''started_at'', PStr ''2024-01-01T10:00:00''),
          (''stages'',
           PDict
            [(''code_analysis'',
              PDict
               [(''issues_found'', PInt 0),
                (''ai_suggestions'', PDict [(''suggestions'', PList [])])]),
             (''security_scan'',
              PDict
               [(''vulnerabilities'', PInt 0),
                (''ai_risk_assessment'',
                 PDict
                  [(''risk_level'', PInt 0),
                   (''analysis'', PStr ''No security issues found.'')])]),
             (''testing'',
              PDict
               [(''passed'', PInt 5), (''failed'', PInt 0),
                (''coverage'', PFloat (Finite (3 / 4))),
                (''ai_test_suggestions'',
                 PDict [(''suggestions'', PList [])])]),
             (''deployment'',
              PDict
               [(''success'', PBool True),
                (''environment'', PStr ''production''),
                (''ai_risk_assessment'',
                 PDict [(''risk_level'', PInt 1)])])]),
          (''ai_summary'', PDict [(''conclusion'', PStr ''ok'')]),
          (''success'', PBool True),
          (''completed_at'', PStr ''2024-01-01T10:05:00'')],
         calls =
           [(Analyze, Inr (PList [])),
            (GetCodeImprovements, Inr (PDict [(''suggestions'', PList [])])),
            (Scan, Inr (PList [])),
            (AssessSecurityRisks,
             Inr (PDict
                   [(''risk_level'', PInt 0),
                    (''analysis'', PStr ''No security issues found.'')])),
            (RunTests,
             Inr (PDict
                   [(''passed'', PInt 5), (''failed'', PInt 0),
                    (''coverage'', PFloat (Finite (3 / 4)))])),
            (GetRecentChanges, Inr (PDict [])),
            (SuggestAdditionalTests,
             Inr (PDict [(''suggestions'', PList [])])),
            (FindIacFiles, Inr (PList [])),
            (CreateDeploymentPlan, Inr (PDict [(''steps'', PList [])])),
            (AssessDeploymentRisks, Inr (PDict [(''risk_level'', PInt 1)])),
            (Deploy,
             Inr (PDict
                   [(''success'', PBool True),
                    (''environment'', PStr ''production'')])),
            (GenerateBuildSummary,
             Inr (PDict [(''conclusion'', PStr ''ok'')]))],
         assigned = [''ai_summary'', ''success'', ''completed_at'']\<rparr>)"
  by (simp add: run_defs clean_run_def)



lemma demo_vulnerable_run:
  "demo vulnerable_run =
     (Inr (),
      \<lparr>results =
         [(''build_id'', PStr ''build-20240101-100000''),
          (''repository'', PStr ''https://example.org/service''),
          (''branch'', PStr ''main''),
          (''started_at'', PStr ''2024-01-01T10:00:00''),
          (''stages'',
           PDict
            [(''code_analysis'',
              PDict
               [(''issues_found'', PInt 0),
                (''ai_suggestions'', PDict [(''suggestions'', PList [])])]),
             (''security_scan'',
              PDict
               [(''vulnerabilities'', PInt 1),
                (''ai_risk_assessment'', PDict [(''risk_level'', PInt 4)])]),
             (''testing'',
              PDict
               [(''passed'', PInt 5), (''failed'', PInt 0),
                (''coverage'', PFloat (Finite (3 / 4))),
                (''ai_test_suggestions'',
                 PDict [(''suggestions'', PList [])])]),
             (''deployment'',
              PDict
               [(''success'', PBool False),
                (''halted_reason'', PStr ''High risk assessment''),
                (''ai_risk_assessment'',
                 PDict [(''risk_level'', PInt 4)])])]),
          (''ai_summary'', PDict [(''conclusion'', PStr ''ok'')]),
          (''success'', PBool True),
          (''completed_at'', PStr ''2024-01-01T10:05:00'')],
         calls =
           [(Analyze, Inr (PList [])),
            (GetCodeImprovements, Inr (PDict [(''suggestions'', PList [])])),
            (Scan, Inr (PList [PDict [(''severity'', PStr ''high'')]])),
            (AssessSecurityRisks, Inr (PDict [(''risk_level'', PInt 4)])),
            (RunTests,
             Inr (PDict
                   [(''passed'', PInt 5), (''failed'', PInt 0),
                    (''coverage'', PFloat (Finite (3 / 4)))])),
            (GetRecentChanges, Inr (PDict [])),
            (SuggestAdditionalTests,
             Inr (PDict [(''suggestions'', PList [])])),
            (FindIacFiles, Inr (PList [])),
            (CreateDeploymentPlan, Inr (PDict [(''steps'', PList [])])),
            (AssessDeploymentRisks, Inr (PDict [(''risk_level'', PInt 4)])),
            (GenerateBuildSummary,
             Inr (PDict [(''conclusion'', PStr ''ok'')]))],
         assigned = [''ai_summary'', ''success'', ''completed_at'']\<rparr>)"
  by (simp add: run_defs vulnerable_run_def clean_run_def)

lemma demo_flawed_run:
  "demo flawed_run =
     (Inr (),
      \<lparr>results =
         [(''build_id'', PStr ''build-20240101-100000''),
          (''repository'', PStr ''https://example.org/service''),
          (''branch'', PStr ''main''),
          (''started_at'', PStr ''2024-01-01T10:00:00''),
          (''stages'',
           PDict
            [(''code_analysis'',
              PDict
               [(''issues_found'', PInt 1),
                (''ai_suggestions'', PDict [(''suggestions'', PList [])])]),
             (''security_scan'',
              PDict
               [(''vulnerabilities'', PInt 1),
                (''ai_risk_assessment'',
                 PDict
                  [(''risk_level'', PInt 0),
                   (''analysis'', PStr ''No security issues found.'')])]),
             (''testing'',
              PDict
               [(''passed'', PInt 5), (''failed'', PInt 0),
                (''coverage'', PFloat (Finite (3 / 4))),
                (''ai_test_suggestions'',
                 PDict [(''suggestions'', PList [])])]),
             (''deployment'',
              PDict
               [(''success'', PBool True),
                (''environment'', PStr ''production''),
                (''ai_risk_assessment'',
                 PDict [(''risk_level'', PInt 0)])])]),
          (''ai_summary'', PDict [(''conclusion'', PStr ''ok'')]),
          (''success'', PBool True),
          (''completed_at'', PStr ''2024-01-01T10:05:00'')],
         calls =
           [(Analyze,
             Inr (PList [PDict [(''rule'', PStr ''unused-import'')]])),
            (GetCodeImprovements, Inr (PDict [(''suggestions'', PList [])])),
            (Scan, Inr (PList [PDict [(''severity'', PStr ''high'')]])),
            (AssessSecurityRisks,
             Inr (PDict
                   [(''risk_level'', PInt 0),
                    (''analysis'', PStr ''No security issues found.'')])),
            (RunTests,
             Inr (PDict
                   [(''passed'', PInt 5), (''failed'', PInt 0),
                    (''coverage'', PFloat (Finite (3 / 4)))])),
            (GetRecentChanges, Inr (PDict [])),
            (SuggestAdditionalTests,
             Inr (PDict [(''suggestions'', PList [])])),
            (FindIacFiles, Inr (PList [])),
            (CreateDeploymentPlan, Inr (PDict [(''steps'', PList [])])),
            (AssessDeploymentRisks, Inr (PDict [(''risk_level'', PInt 0)])),
            (Deploy,
             Inr (PDict
                   [(''success'', PBool True),
                    (''environment'', PStr ''production'')])),
            (GenerateBuildSummary,
             Inr (PDict [(''conclusion'', PStr ''ok'')]))],
         assigned = [''ai_summary'', ''success'', ''completed_at'']\<rparr>)"
  by (simp add: run_defs flawed_run_def clean_run_def)

lemma demo_failing_tests_run:
  "demo failing_tests_run =
     (Inr (),
      \<lparr>results =
         [(''build_id'', PStr ''build-20240101-100000''),
          (''repository'', PStr ''https://example.org/service''),
          (''branch'', PStr ''main''),
          (''started_at'', PStr ''2024-01-01T10:00:00''),
          (''stages'',
           PDict
            [(''code_analysis'',
              PDict
               [(''issues_found'', PInt 0),
                (''ai_suggestions'', PDict [(''suggestions'', PList [])])]),
             (''security_scan'',
              PDict
               [(''vulnerabilities'', PInt 0),
                (''ai_risk_assessment'',
                 PDict
                  [(''risk_level'', PInt 0),
                   (''analysis'', PStr ''No security issues found.'')])]),
             (''testing'',
              PDict
               [(''passed'', PInt 0), (''failed'', PInt 5),
                (''coverage'', PFloat (Finite 0)),
                (''ai_test_suggestions'',
                 PDict [(''suggestions'', PList [])])])]),
          (''ai_summary'', PDict [(''conclusion'', PStr ''ok'')]),
          (''success'', PBool True),
          (''completed_at'', PStr ''2024-01-01T10:05:00'')],
         calls =
           [(Analyze, Inr (PList [])),
            (GetCodeImprovements, Inr (PDict [(''suggestions'', PList [])])),
            (Scan, Inr (PList [])),
            (AssessSecurityRisks,
             Inr (PDict
                   [(''risk_level'', PInt 0),
                    (''analysis'', PStr ''No security issues found.'')])),
            (RunTests,
             Inr (PDict
                   [(''passed'', PInt 0), (''failed'', PInt 5),
                    (''coverage'', PFloat (Finite 0))])),
            (GetRecentChanges, Inr (PDict [])),
            (SuggestAdditionalTests,
             Inr (PDict [(''suggestions'', PList [])])),
            (FindIacFiles, Inr (PList [])),
            (GenerateBuildSummary,
             Inr (PDict [(''conclusion'', PStr ''ok'')]))],
         assigned = [''ai_summary'', ''success'', ''completed_at'']\<rparr>)"
  by (simp add: run_defs failing_tests_run_def clean_run_def)

lemma demo_summary_outage_run:
  "demo summary_outage_run =
     (Inr (),
      \<lparr>results =
         [(''build_id'', PStr ''build-20240101-100000''),
          (''repository'', PStr ''https://example.org/service''),
          (''branch'', PStr ''main''),
          (''started_at'', PStr ''2024-01-01T10:00:00''),
          (''stages'',
           PDict
            [(''code_analysis'',
              PDict
               [(''issues_found'', PInt 0),
                (''ai_suggestions'', PDict [(''suggestions'', PList [])])]),
             (''security_scan'',
              PDict
               [(''vulnerabilities'', PInt 0),
                (''ai_risk_assessment'',
                 PDict
                  [(''risk_level'', PInt 0),
                   (''analysis'', PStr ''No security issues found.'')])]),
             (''testing'',
              PDict
               [(''passed'', PInt 5), (''failed'', PInt 0),
                (''coverage'', PFloat (Finite (3 / 4))),
                (''ai_test_suggestions'',
                 PDict [(''suggestions'', PList [])])]),
             (''deployment'',
              PDict
               [(''success'', PBool True),
                (''environment'', PStr ''production''),
                (''ai_risk_assessment'',
                 PDict [(''risk_level'', PInt 1)])])]),
          (''error'', PStr ''assistant unavailable''),
          (''success'', PBool False),
          (''completed_at'', PStr ''2024-01-01T10:05:00'')],
         calls =
           [(Analyze, Inr (PList [])),
            (GetCodeImprovements, Inr (PDict [(''suggestions'', PList [])])),
            (Scan, Inr (PList [])),
            (AssessSecurityRisks,
             Inr (PDict
                   [(''risk_level'', PInt 0),
                    (''analysis'', PStr ''No security issues found.'')])),
            (RunTests,
             Inr (PDict
                   [(''passed'', PInt 5), (''failed'', PInt 0),
                    (''coverage'', PFloat (Finite (3 / 4)))])),
            (GetRecentChanges, Inr (PDict [])),
            (SuggestAdditionalTests,
             Inr (PDict [(''suggestions'', PList [])])),
            (FindIacFiles, Inr (PList [])),
            (CreateDeploymentPlan, Inr (PDict [(''steps'', PList [])])),
            (AssessDeploymentRisks, Inr (PDict [(''risk_level'', PInt 1)])),
            (Deploy,
             Inr (PDict
                   [(''success'', PBool True),
                    (''environment'', PStr ''production'')])),
            (GenerateBuildSummary,
             Inl (Exception ''assistant unavailable''))],
         assigned = [''error'', ''success'', ''completed_at'']\<rparr>)"
  by (simp add: run_defs summary_outage_run_def clean_run_def)


lemma demo_interrupted_run:
  "demo interrupted_run =
     (Inl (BaseException ''KeyboardInterrupt''),
      \<lparr>results =
         [(''build_id'', PStr ''build-20240101-100000''),
          (''repository'', PStr ''https://example.org/service''),
          (''branch'', PStr ''main''),
          (''started_at'', PStr ''2024-01-01T10:00:00''),
          (''stages'',
           PDict
            [(''code_analysis'',
              PDict
               [(''issues_found'', PInt 0),
                (''ai_suggestions'', PDict [(''suggestions'', PList [])])]),
             (''security_scan'',
              PDict
               [(''vulnerabilities'', PInt 0),
                (''ai_risk_assessment'',
                 PDict
                  [(''risk_level'', PInt 0),
                   (''analysis'', PStr ''No security issues found.'')])])]),
          (''completed_at'', PStr ''2024-01-01T10:05:00'')],
         calls =
           [(Analyze, Inr (PList [])),
            (GetCodeImprovements, Inr (PDict [(''suggestions'', PList [])])),
            (Scan, Inr (PList [])),
            (AssessSecurityRisks,
             Inr (PDict
                   [(''risk_level'', PInt 0),
                    (''analysis'', PStr ''No security issues found.'')])),
            (RunTests, Inl (BaseException ''KeyboardInterrupt''))],
         assigned = [''completed_at'']\<rparr>)"
  by (simp add: run_defs interrupted_run_def clean_run_def)


section \<open>Finalisation and the shape of the report\<close>

lemma try_block_untouched:
  assumes rs: "try_block self (initial_state now self) = (r, s)"
  shows "count_list (assigned s) ''completed_at'' = 0"
    and "count_list (assigned s) ''success'' = 0"
    and "count_list (assigned s) ''error'' = 0"
    and "map_of (results s) ''error'' = None"
    and "map_of (results s) ''success'' = None"
proof -
  note fr = try_block_frame[OF rs]
  show "count_list (assigned s) ''completed_at'' = 0"
    using touchesD_assigned[OF fr, of "''completed_at''"] by (simp add: initial_lookup)
  show "count_list (assigned s) ''success'' = 0"
    using touchesD_assigned[OF fr, of "''success''"] by (simp add: initial_lookup)
  show "count_list (assigned s) ''error'' = 0"
    using touchesD_assigned[OF fr, of "''error''"] by (simp add: initial_lookup)
  show "map_of (results s) ''error'' = None"
    using touchesD_results[OF fr, of "''error''"] by (simp add: initial_lookup)
  show "map_of (results s) ''success'' = None"
    using touchesD_results[OF fr, of "''success''"] by (simp add: initial_lookup)
qed

lemma finalised_outcome:
  assumes rs: "try_block self (initial_state now self) = (r, s)"
  shows "case r of
      Inr _ \<Rightarrow>
        fst (run_pipeline now self) = Inr ()
        \<and> map_of (results (snd (run_pipeline now self))) ''success'' = Some (PBool True)
        \<and> map_of (results (snd (run_pipeline now self))) ''error'' = None
        \<and> count_list (assigned (snd (run_pipeline now self))) ''success'' = 1
    | Inl e \<Rightarrow>
        if is_exception e then
          (case str_exc e of
             Inr msg \<Rightarrow>
               fst (run_pipeline now self) = Inr ()
               \<and> map_of (results (snd (run_pipeline now self))) ''success'' = Some (PBool False)
               \<and> map_of (results (snd (run_pipeline now self))) ''error'' = Some (PStr msg)
               \<and> count_list (assigned (snd (run_pipeline now self))) ''success'' = 1
           | Inl e' \<Rightarrow>
               fst (run_pipeline now self) = Inl e'
               \<and> map_of (results (snd (run_pipeline now self))) ''success'' = None)
        else fst (run_pipeline now self) = Inl e
             \<and> map_of (results (snd (run_pipeline now self))) ''success'' = None"
proof -
  note u = try_block_untouched[OF rs]
  show ?thesis
    unfolding run_pipeline_eq[OF rs]
    by (simp add: handlers_def setitem_lookup u split: sum.splits)
qed

text \<open>
  C4, as the code has it. \<^verbatim>\<open>completed_at\<close> is assigned exactly once on every path, with the
  clock reading taken in the \<^verbatim>\<open>finally\<close> clause. When the \<^verbatim>\<open>try\<close> body raises nothing, the
  call returns the report with \<^verbatim>\<open>success\<close> \<^verbatim>\<open>True\<close> and no \<^verbatim>\<open>error\<close>. When it raises an
  instance of \<^verbatim>\<open>Exception\<close> whose \<^verbatim>\<open>str\<close> is \<open>msg\<close>, the call returns the report with
  \<^verbatim>\<open>success\<close> \<^verbatim>\<open>False\<close> and \<^verbatim>\<open>error\<close> \<open>msg\<close>; \<^verbatim>\<open>success\<close> is assigned exactly once in both
  cases. An exception that is not an instance of \<^verbatim>\<open>Exception\<close>, and the exception that
  \<^verbatim>\<open>str(e)\<close> raises in the handler, reach the caller, with \<^verbatim>\<open>success\<close> never assigned. A
  collaborator call that raised is what the \<^verbatim>\<open>try\<close> body raised; in particular, when a
  collaborator raised an \<^verbatim>\<open>Exception\<close> with message \<open>msg\<close>, the report is returned with
  \<^verbatim>\<open>success\<close> \<^verbatim>\<open>False\<close> and \<^verbatim>\<open>error\<close> \<open>msg\<close>, and a \<^verbatim>\<open>KeyError\<close> of the orchestrator's own
  subscripts is reported as the missing key between apostrophes.
  (\<^verbatim>\<open>clone_repository\<close> is a placeholder that cannot fail.)
\<close>

theorem caught_exceptions_are_reported:
  "let R = run_pipeline now self; F = snd R; T = fst (try_block self (initial_state now self)) in
   count_list (assigned F) ''completed_at'' = 1
   \<and> map_of (results F) ''completed_at'' = Some (PStr (now 1))
   \<and> (case T of
        Inr _ \<Rightarrow>
          fst R = Inr ()
          \<and> map_of (results F) ''success'' = Some (PBool True)
          \<and> map_of (results F) ''error'' = None
          \<and> count_list (assigned F) ''success'' = 1
      | Inl e \<Rightarrow>
          if is_exception e then
            (case str_exc e of
               Inr msg \<Rightarrow>
                 fst R = Inr ()
                 \<and> map_of (results F) ''success'' = Some (PBool False)
                 \<and> map_of (results F) ''error'' = Some (PStr msg)
                 \<and> count_list (assigned F) ''success'' = 1
             | Inl e' \<Rightarrow> fst R = Inl e' \<and> map_of (results F) ''success'' = None)
          else fst R = Inl e \<and> map_of (results F) ''success'' = None)
   \<and> (\<forall>k. T = Inl (KeyError k) \<longrightarrow>
          fst R = Inr () \<and> map_of (results F) ''error'' = Some (PStr ([CHR 0x27] @ k @ [CHR 0x27])))
   \<and> (\<forall>m e. (m, Inl e) \<in> set (calls F) \<longrightarrow> T = Inl e)
   \<and> (\<forall>m msg. (m, Inl (Exception msg)) \<in> set (calls F) \<longrightarrow>
          fst R = Inr ()
          \<and> map_of (results F) ''success'' = Some (PBool False)
          \<and> map_of (results F) ''error'' = Some (PStr msg))"
proof -
  obtain r s where rs: "try_block self (initial_state now self) = (r, s)"
    by (cases "try_block self (initial_state now self)")
  note u = try_block_untouched[OF rs]
  note o = finalised_outcome[OF rs]
  have c1: "count_list (assigned (snd (run_pipeline now self))) ''completed_at'' = 1"
    by (simp add: run_pipeline_eq[OF rs] handlers_completed u)
  have c2: "map_of (results (snd (run_pipeline now self))) ''completed_at'' = Some (PStr (now 1))"
    by (simp add: run_pipeline_eq[OF rs] handlers_completed)
  have k: "fst (run_pipeline now self) = Inr () \<and>
      map_of (results (snd (run_pipeline now self))) ''error'' = Some (PStr ([CHR 0x27] @ k @ [CHR 0x27]))"
    if "r = Inl (KeyError k)" for k
    using o that by (simp add: quoted_def apostrophe_def)
  have l: "r = Inl e" if "(m, Inl e) \<in> set (calls (snd (run_pipeline now self)))" for m e
    using raised_call_is_outcome[OF that] rs by simp
  have x: "fst (run_pipeline now self) = Inr ()
          \<and> map_of (results (snd (run_pipeline now self))) ''success'' = Some (PBool False)
          \<and> map_of (results (snd (run_pipeline now self))) ''error'' = Some (PStr msg)"
    if "(m, Inl (Exception msg)) \<in> set (calls (snd (run_pipeline now self)))" for m msg
    using o l[OF that] by simp
  from c1 c2 o k l x show ?thesis
    unfolding Let_def rs fst_conv by blast
qed

theorem caught_exceptions_are_reported_witness:
  "(GenerateBuildSummary, Inl (Exception ''assistant unavailable''))
      \<in> set (calls (snd (demo summary_outage_run)))
   \<and> fst (demo summary_outage_run) = Inr ()
   \<and> map_of (results (snd (demo summary_outage_run))) ''success'' = Some (PBool False)
   \<and> map_of (results (snd (demo summary_outage_run))) ''error'' = Some (PStr ''assistant unavailable'')
   \<and> fst (try_block
            (stubbed ''https://example.org/service'' ''main'' ''build-20240101-100000''
               malformed_assessment_run)
            (initial_state clock
               (stubbed ''https://example.org/service'' ''main'' ''build-20240101-100000''
                  malformed_assessment_run))) = Inl (KeyError ''risk_level'')
   \<and> fst (demo malformed_assessment_run) = Inr ()
   \<and> map_of (results (snd (demo malformed_assessment_run))) ''error'' =
        Some (PStr ([CHR 0x27] @ ''risk_level'' @ [CHR 0x27]))"
proof -
  have c: "(GenerateBuildSummary, Inl (Exception ''assistant unavailable''))
      \<in> set (calls (snd (demo summary_outage_run)))"
    by (simp add: demo_summary_outage_run)
  note t = caught_exceptions_are_reported[of clock
      "stubbed ''https://example.org/service'' ''main'' ''build-20240101-100000'' summary_outage_run",
      unfolded Let_def, folded demo_def]
  note last = t[THEN conjunct2, THEN conjunct2, THEN conjunct2, THEN conjunct2, THEN conjunct2,
      rule_format, OF c]
  have k: "fst (try_block
            (stubbed ''https://example.org/service'' ''main'' ''build-20240101-100000''
               malformed_assessment_run)
            (initial_state clock
               (stubbed ''https://example.org/service'' ''main'' ''build-20240101-100000''
                  malformed_assessment_run))) = Inl (KeyError ''risk_level'')"
    by (simp add: run_defs malformed_assessment_run_def clean_run_def)
  note t' = caught_exceptions_are_reported[of clock
      "stubbed ''https://example.org/service'' ''main'' ''build-20240101-100000'' malformed_assessment_run",
      unfolded Let_def, folded demo_def]
  note key = t'[THEN conjunct2, THEN conjunct2, THEN conjunct2, THEN conjunct1, rule_format, OF k]
  from c last k key show ?thesis by simp
qed

theorem interrupt_reaches_the_caller:
  "fst (demo interrupted_run) = Inl (BaseException ''KeyboardInterrupt'')
   \<and> map_of (results (snd (demo interrupted_run))) ''success'' = None"
  by (simp add: demo_interrupted_run)

text \<open>
  C10. The dictionary is created with the keys \<^verbatim>\<open>build_id\<close>, \<^verbatim>\<open>repository\<close>, \<^verbatim>\<open>branch\<close>,
  \<^verbatim>\<open>started_at\<close> and \<^verbatim>\<open>stages\<close> before any collaborator has been invoked. At the end of
  every call the dictionary still has them, with the identity values it was created with and
  a dictionary under \<^verbatim>\<open>stages\<close>, together with \<^verbatim>\<open>completed_at\<close>; and every dictionary that
  \<^verbatim>\<open>run_pipeline\<close> returns has a boolean \<^verbatim>\<open>success\<close> as well.
\<close>

theorem report_keys_always_present:
  "map fst (results (initial_state now self)) =
       [''build_id'', ''repository'', ''branch'', ''started_at'', ''stages'']
   \<and> calls (initial_state now self) = []
   \<and> map_of (results (snd (run_pipeline now self))) ''build_id'' = Some (PStr (build_id self))
   \<and> map_of (results (snd (run_pipeline now self))) ''repository'' = Some (PStr (repo_url self))
   \<and> map_of (results (snd (run_pipeline now self))) ''branch'' = Some (PStr (branch self))
   \<and> map_of (results (snd (run_pipeline now self))) ''started_at'' = Some (PStr (now 0))
   \<and> (\<exists>st. map_of (results (snd (run_pipeline now self))) ''stages'' = Some (PDict st))
   \<and> map_of (results (snd (run_pipeline now self))) ''completed_at'' = Some (PStr (now 1))
   \<and> (fst (run_pipeline now self) = Inr () \<longrightarrow>
        (\<exists>b. map_of (results (snd (run_pipeline now self))) ''success'' = Some (PBool b)))"
proof -
  obtain r s where rs: "try_block self (initial_state now self) = (r, s)"
    by (cases "try_block self (initial_state now self)")
  note fr = try_block_frame[OF rs]
  have k1: "map_of (results s) ''build_id'' = Some (PStr (build_id self))"
    using touchesD_results[OF fr, of "''build_id''"] by (simp add: initial_lookup)
  have k2: "map_of (results s) ''repository'' = Some (PStr (repo_url self))"
    using touchesD_results[OF fr, of "''repository''"] by (simp add: initial_lookup)
  have k3: "map_of (results s) ''branch'' = Some (PStr (branch self))"
    using touchesD_results[OF fr, of "''branch''"] by (simp add: initial_lookup)
  have k4: "map_of (results s) ''started_at'' = Some (PStr (now 0))"
    using touchesD_results[OF fr, of "''started_at''"] by (simp add: initial_lookup)
  from touchesD_stages[OF fr initial_lookup(5)]
  obtain st where k5: "map_of (results s) ''stages'' = Some (PDict st)" ..
  have i: "map fst (results (initial_state now self)) =
       [''build_id'', ''repository'', ''branch'', ''started_at'', ''stages'']"
    by (simp add: initial_state_def initial_results_def)
  have b: "fst (run_pipeline now self) = Inr () \<longrightarrow>
        (\<exists>b. map_of (results (snd (run_pipeline now self))) ''success'' = Some (PBool b))"
    using finalised_outcome[OF rs] by (auto split: sum.splits if_splits)
  show ?thesis
    using b unfolding run_pipeline_eq[OF rs]
    by (simp add: handlers_identity handlers_completed k1 k2 k3 k4 k5 i initial_lookup)
qed

theorem report_keys_always_present_witness:
  "fst (demo clean_run) = Inr ()
   \<and> map_of (results (snd (demo clean_run))) ''build_id'' = Some (PStr ''build-20240101-100000'')
   \<and> map_of (results (snd (demo clean_run))) ''success'' = Some (PBool True)"
proof -
  have r: "fst (demo clean_run) = Inr ()" by (simp add: demo_clean_run)
  note t = report_keys_always_present[of clock
      "stubbed ''https://example.org/service'' ''main'' ''build-20240101-100000'' clean_run",
      folded demo_def]
  from t have "map_of (results (snd (demo clean_run))) ''build_id'' =
      Some (PStr (build_id (stubbed ''https://example.org/service'' ''main'' ''build-20240101-100000'' clean_run)))"
    by blast
  then have b: "map_of (results (snd (demo clean_run))) ''build_id'' = Some (PStr ''build-20240101-100000'')"
    by (simp add: stubbed_def)
  from t r have "\<exists>b. map_of (results (snd (demo clean_run))) ''success'' = Some (PBool b)"
    by blast
  then have "map_of (results (snd (demo clean_run))) ''success'' = Some (PBool True)"
    by (simp add: demo_clean_run)
  with r b show ?thesis by simp
qed

section \<open>The risk gate\<close>


lemma run_summarised:
  assumes "before_deployment self (repo_path_of self) (initial_state now self) = (Inr u, s4)"
    and "deployment_stage self (repo_path_of self) s4 = (Inr w, s5)"
  shows "run_pipeline now self = handlers now (build_summary self s5)"
  by (simp add: run_from_gate[OF assms(1)] bind_prog_def assms(2))

lemma assessed_run:
  assumes a: "(AssessDeploymentRisks, Inr (PDict risks)) \<in> set (calls (snd (run_pipeline now self)))"
  obtains s4 u plan st s where
    "before_deployment self (repo_path_of self) (initial_state now self) = (Inr u, s4)"
    "s = s4\<lparr>calls := calls s4 @ [(CreateDeploymentPlan, Inr (PDict plan)),
                                   (AssessDeploymentRisks, Inr (PDict risks))]\<rparr>"
    "map_of (results s) ''stages'' = Some (PDict st)"
    "deployment_stage self (repo_path_of self) s4 = deploy_or_halt self plan risks s"
    "Deploy \<notin> fst ` set (calls s)"
    "stage_entry s ''deployment'' = None"
proof -
  obtain r4 s4 where b: "before_deployment self (repo_path_of self) (initial_state now self) = (r4, s4)"
    by (cases "before_deployment self (repo_path_of self) (initial_state now self)")
  note g = gate_state[OF b]
  have old: "AssessDeploymentRisks \<notin> fst ` set (calls s4)" by (rule g(2)) simp
  have nd: "Deploy \<notin> fst ` set (calls s4)" by (rule g(2)) simp
  from g(1) obtain st where st: "map_of (results s4) ''stages'' = Some (PDict st)" by blast
  show thesis
  proof (cases r4)
    case (Inl e)
    with b have "run_pipeline now self = handlers now (Inl e, s4)" by (simp add: run_before_gate)
    with a have "(AssessDeploymentRisks, Inr (PDict risks)) \<in> set (calls s4)"
      by (simp add: handlers_calls)
    with not_called[OF old] show thesis by simp
  next
    case (Inr u)
    with b have b': "before_deployment self (repo_path_of self) (initial_state now self) = (Inr u, s4)"
      by simp
    obtain r5 s5 where d: "deployment_stage self (repo_path_of self) s4 = (r5, s5)"
      by (cases "deployment_stage self (repo_path_of self) s4")
    from report_after_gate(2)[OF b' d, of AssessDeploymentRisks "Inr (PDict risks)"] a
    have "(AssessDeploymentRisks, Inr (PDict risks)) \<in> set (calls s5)" by simp
    with d have new: "(AssessDeploymentRisks, Inr (PDict risks))
        \<in> set (calls (snd (deployment_stage self (repo_path_of self) s4)))" by simp
    from deployment_stage_assessed[OF st new old] obtain plan where
      p: "deployment_stage self (repo_path_of self) s4 =
           deploy_or_halt self plan risks
             (s4\<lparr>calls := calls s4 @ [(CreateDeploymentPlan, Inr (PDict plan)),
                                      (AssessDeploymentRisks, Inr (PDict risks))]\<rparr>)" by blast
    show thesis
      by (rule that[OF b' refl _ p]) (use st nd g(3) in \<open>simp_all add: stage_entry_def\<close>)
  qed
qed

lemma never_deployed:
  assumes b: "before_deployment self (repo_path_of self) (initial_state now self) = (Inr u, s4)"
    and h: "deployment_stage self (repo_path_of self) s4 = (r5, s5)"
    and c: "Deploy \<notin> fst ` set (calls s5)"
  shows "Deploy \<notin> set (invoked (snd (run_pipeline now self)))"
proof -
  have "count_list (invoked (snd (run_pipeline now self))) Deploy = count_list (invoked s5) Deploy"
    by (rule report_after_gate(3)[OF b h]) simp
  also have "\<dots> = 0" using c by (simp add: invoked_def)
  finally show ?thesis by (simp add: count_list_0_iff)
qed









section \<open>The summary call decides the terminal success value\<close>

lemma summary_reached:
  obtains (stopped) e s where
      "try_block self (initial_state now self) = (Inl e, s)"
      "GenerateBuildSummary \<notin> fst ` set (calls s)"
  | (reached) s5 where
      "try_block self (initial_state now self) = build_summary self s5"
      "GenerateBuildSummary \<notin> fst ` set (calls s5)"
proof -
  obtain r4 s4 where b: "before_deployment self (repo_path_of self) (initial_state now self) = (r4, s4)"
    by (cases "before_deployment self (repo_path_of self) (initial_state now self)")
  have n4: "GenerateBuildSummary \<notin> fst ` set (calls s4)" by (rule gate_state(2)[OF b]) simp
  show thesis
  proof (cases r4)
    case (Inl e)
    with b have "try_block self (initial_state now self) = (Inl e, s4)"
      by (simp add: try_block_gate bind_prog_def)
    then show thesis using n4 by (rule stopped)
  next
    case (Inr u)
    obtain r5 s5 where d: "deployment_stage self (repo_path_of self) s4 = (r5, s5)"
      by (cases "deployment_stage self (repo_path_of self) s4")
    from touchesD_calls[OF keepsD[OF keeps_deployment d]] obtain evs where
      e: "calls s5 = calls s4 @ evs" "fst ` set evs \<subseteq> {CreateDeploymentPlan, AssessDeploymentRisks, Deploy}"
      by blast
    from e(2) have "GenerateBuildSummary \<notin> fst ` set evs" by auto
    with n4 e(1) have n5: "GenerateBuildSummary \<notin> fst ` set (calls s5)" by auto
    show thesis
    proof (cases r5)
      case (Inl e)
      with b Inr d have "try_block self (initial_state now self) = (Inl e, s5)"
        by (simp add: try_block_gate bind_prog_def)
      then show thesis using n5 by (rule stopped)
    next
      case Inr2: (Inr w)
      with b Inr d have "try_block self (initial_state now self) = build_summary self s5"
        by (simp add: try_block_gate bind_prog_def)
      then show thesis using n5 by (rule reached)
    qed
  qed
qed

lemma success_iff_summarised:
  "map_of (results (snd (run_pipeline now self))) ''success'' = Some (PBool True) \<longleftrightarrow>
   (\<exists>d. (GenerateBuildSummary, Inr d) \<in> set (calls (snd (run_pipeline now self))))"
proof (cases rule: summary_reached[of self now])
  case (stopped e s)
  from finalised_outcome[OF stopped(1)]
  have "map_of (results (snd (run_pipeline now self))) ''success'' \<noteq> Some (PBool True)"
    by (auto split: sum.splits if_splits)
  moreover have "(GenerateBuildSummary, Inr d) \<notin> set (calls (snd (run_pipeline now self)))" for d
    using not_called[OF stopped(2)] by (simp add: run_pipeline_eq[OF stopped(1)] handlers_calls)
  ultimately show ?thesis by blast
next
  case (reached s5)
  show ?thesis
  proof (cases "generate_build_summary (ai_assistant self) (results s5)")
    case (Inl e)
    with reached(1) have t: "try_block self (initial_state now self) =
        (Inl e, s5\<lparr>calls := calls s5 @ [(GenerateBuildSummary, Inl e)]\<rparr>)"
      by (simp add: build_summary_run)
    from finalised_outcome[OF t]
    have "map_of (results (snd (run_pipeline now self))) ''success'' \<noteq> Some (PBool True)"
      by (auto split: sum.splits if_splits)
    moreover have "(GenerateBuildSummary, Inr d) \<notin> set (calls (snd (run_pipeline now self)))" for d
      using not_called[OF reached(2)] by (simp add: run_pipeline_eq[OF t] handlers_calls)
    ultimately show ?thesis by blast
  next
    case (Inr d)
    with reached(1) have t: "try_block self (initial_state now self) =
        (Inr (), results_setitem ''ai_summary'' (PDict d)
                   (s5\<lparr>calls := calls s5 @ [(GenerateBuildSummary, Inr (PDict d))]\<rparr>))"
      by (simp add: build_summary_run)
    from finalised_outcome[OF t]
    have "map_of (results (snd (run_pipeline now self))) ''success'' = Some (PBool True)"
      by simp
    moreover have "(GenerateBuildSummary, Inr (PDict d)) \<in> set (calls (snd (run_pipeline now self)))"
      by (simp add: run_pipeline_eq[OF t] handlers_calls setitem_lookup)
    ultimately show ?thesis by blast
  qed
qed

lemma raised_call_is_reported:
  assumes c: "(m, Inl e) \<in> set (calls (snd (run_pipeline now self)))"
    and x: "is_exception e" and msg: "str_exc e = Inr msg"
  shows "fst (run_pipeline now self) = Inr ()"
    and "map_of (results (snd (run_pipeline now self))) ''success'' = Some (PBool False)"
    and "map_of (results (snd (run_pipeline now self))) ''error'' = Some (PStr msg)"
proof -
  obtain r s where rs: "try_block self (initial_state now self) = (r, s)"
    by (cases "try_block self (initial_state now self)")
  from raised_call_is_outcome[OF c] rs have r: "r = Inl e" by simp
  from finalised_outcome[OF rs] r x msg
  show "fst (run_pipeline now self) = Inr ()"
    and "map_of (results (snd (run_pipeline now self))) ''success'' = Some (PBool False)"
    and "map_of (results (snd (run_pipeline now self))) ''error'' = Some (PStr msg)"
    by simp_all
qed

text \<open>
  C8, as the code has it. The summary call is the last statement of the \<^verbatim>\<open>try\<close> body and has
  no handler of its own, so it decides the terminal \<^verbatim>\<open>success\<close> value: \<^verbatim>\<open>success\<close> is \<^verbatim>\<open>True\<close>
  exactly when \<^verbatim>\<open>generate_build_summary\<close> was called and returned. When it raises an
  \<^verbatim>\<open>Exception\<close> with message \<open>msg\<close>, the report is returned with \<^verbatim>\<open>success\<close> \<^verbatim>\<open>False\<close> and
  \<^verbatim>\<open>error\<close> \<open>msg\<close>, whatever the stages recorded.
\<close>

theorem summary_failure_fails_the_run:
  "(map_of (results (snd (run_pipeline now self))) ''success'' = Some (PBool True) \<longleftrightarrow>
      (\<exists>d. (GenerateBuildSummary, Inr d) \<in> set (calls (snd (run_pipeline now self)))))
   \<and> (\<forall>msg. (GenerateBuildSummary, Inl (Exception msg)) \<in> set (calls (snd (run_pipeline now self))) \<longrightarrow>
         fst (run_pipeline now self) = Inr ()
         \<and> map_of (results (snd (run_pipeline now self))) ''success'' = Some (PBool False)
         \<and> map_of (results (snd (run_pipeline now self))) ''error'' = Some (PStr msg))"
proof -
  have "fst (run_pipeline now self) = Inr ()
         \<and> map_of (results (snd (run_pipeline now self))) ''success'' = Some (PBool False)
         \<and> map_of (results (snd (run_pipeline now self))) ''error'' = Some (PStr msg)"
    if "(GenerateBuildSummary, Inl (Exception msg)) \<in> set (calls (snd (run_pipeline now self)))" for msg
    using raised_call_is_reported[OF that, of msg] by simp
  with success_iff_summarised[of now self] show ?thesis by blast
qed

theorem summary_failure_fails_the_run_witness:
  "(GenerateBuildSummary, Inl (Exception ''assistant unavailable''))
      \<in> set (calls (snd (demo summary_outage_run)))
   \<and> fst (demo summary_outage_run) = Inr ()
   \<and> map_of (results (snd (demo summary_outage_run))) ''success'' = Some (PBool False)
   \<and> map_of (results (snd (demo summary_outage_run))) ''error'' = Some (PStr ''assistant unavailable'')
   \<and> stage_entry (snd (demo summary_outage_run)) ''deployment'' =
        Some (PDict [(''success'', PBool True), (''environment'', PStr ''production''),
                     (''ai_risk_assessment'', PDict [(''risk_level'', PInt 1)])])"
proof -
  have c: "(GenerateBuildSummary, Inl (Exception ''assistant unavailable''))
      \<in> set (calls (snd (demo summary_outage_run)))"
    by (simp add: demo_summary_outage_run)
  have e: "stage_entry (snd (demo summary_outage_run)) ''deployment'' =
        Some (PDict [(''success'', PBool True), (''environment'', PStr ''production''),
                     (''ai_risk_assessment'', PDict [(''risk_level'', PInt 1)])])"
    by (simp add: demo_summary_outage_run stage_entry_def)
  note t = summary_failure_fails_the_run[of clock
      "stubbed ''https://example.org/service'' ''main'' ''build-20240101-100000'' summary_outage_run",
      folded demo_def]
  from t[THEN conjunct2, rule_format, OF c] c e show ?thesis by simp
qed

theorem summary_failure_changes_success:
  "map_of (results (snd (demo clean_run))) ''stages'' =
     map_of (results (snd (demo summary_outage_run))) ''stages''
   \<and> map_of (results (snd (demo clean_run))) ''success'' = Some (PBool True)
   \<and> map_of (results (snd (demo summary_outage_run))) ''success'' = Some (PBool False)"
  by (simp add: demo_clean_run demo_summary_outage_run)

text \<open>
  C6, as the code has it. In the scenario (the scan reports a finding, the deployment risk
  assessment returns \<^verbatim>\<open>risk_level\<close> 4) \<^verbatim>\<open>deploy\<close> is not invoked and the deployment stage is
  recorded with \<^verbatim>\<open>success\<close> \<^verbatim>\<open>False\<close> and the reason \<^verbatim>\<open>"High risk assessment"\<close>; the terminal
  \<^verbatim>\<open>success\<close> of the run is not affected by that: it is \<^verbatim>\<open>True\<close> when the summary call that
  follows returns, and \<^verbatim>\<open>False\<close> only when that call raises.
\<close>

theorem halted_deployment_leaves_success:
  assumes f: "(Scan, Inr (dicts findings)) \<in> set (calls (snd (run_pipeline now self)))"
    and n: "findings \<noteq> []"
    and a: "(AssessDeploymentRisks, Inr (PDict risks)) \<in> set (calls (snd (run_pipeline now self)))"
    and v: "map_of risks ''risk_level'' = Some (PInt 4)"
  shows "Deploy \<notin> set (invoked (snd (run_pipeline now self)))
    \<and> stage_entry (snd (run_pipeline now self)) ''deployment'' =
         Some (PDict [(''success'', PBool False),
                      (''halted_reason'', PStr ''High risk assessment''),
                      (''ai_risk_assessment'', PDict risks)])
    \<and> (map_of (results (snd (run_pipeline now self))) ''success'' = Some (PBool True) \<longleftrightarrow>
         (\<exists>d. (GenerateBuildSummary, Inr d) \<in> set (calls (snd (run_pipeline now self)))))
    \<and> (\<forall>msg. (GenerateBuildSummary, Inl (Exception msg)) \<in> set (calls (snd (run_pipeline now self))) \<longrightarrow>
         map_of (results (snd (run_pipeline now self))) ''success'' = Some (PBool False))"
proof -
  from a obtain s4 u plan st s where
    b: "before_deployment self (repo_path_of self) (initial_state now self) = (Inr u, s4)"
    and st: "map_of (results s) ''stages'' = Some (PDict st)"
    and d: "deployment_stage self (repo_path_of self) s4 = deploy_or_halt self plan risks s"
    and nd: "Deploy \<notin> fst ` set (calls s)"
    by (rule assessed_run)
  have le: "py_le_int (PInt 4) 3 = Inr False" by simp
  have p: "printable (PInt 4)" by (simp add: below_limit)
  note h = d[unfolded deploy_or_halt_halts[OF st v le p]]
  have "Deploy \<notin> set (invoked (snd (run_pipeline now self)))"
    by (rule never_deployed[OF b h]) (simp add: nd)
  moreover have "stage_entry (snd (run_pipeline now self)) ''deployment'' =
         Some (PDict [(''success'', PBool False),
                      (''halted_reason'', PStr ''High risk assessment''),
                      (''ai_risk_assessment'', PDict risks)])"
    unfolding report_after_gate(1)[OF b h] by (simp add: stage_entry_def AList.update_conv')
  moreover have "map_of (results (snd (run_pipeline now self))) ''success'' = Some (PBool False)"
    if "(GenerateBuildSummary, Inl (Exception msg)) \<in> set (calls (snd (run_pipeline now self)))" for msg
    using raised_call_is_reported(2)[OF that, of msg] by simp
  ultimately show ?thesis using success_iff_summarised[of now self] by blast
qed

theorem halted_deployment_leaves_success_witness:
  "(Scan, Inr (dicts [[(''severity'', PStr ''high'')]])) \<in> set (calls (snd (demo vulnerable_run)))
   \<and> [[(''severity'', PStr ''high'')]] \<noteq> []
   \<and> (AssessDeploymentRisks, Inr (PDict [(''risk_level'', PInt 4)])) \<in> set (calls (snd (demo vulnerable_run)))
   \<and> map_of [(''risk_level'', PInt 4)] ''risk_level'' = Some (PInt 4)
   \<and> (GenerateBuildSummary, Inr (PDict [(''conclusion'', PStr ''ok'')])) \<in> set (calls (snd (demo vulnerable_run)))
   \<and> Deploy \<notin> set (invoked (snd (demo vulnerable_run)))
   \<and> stage_entry (snd (demo vulnerable_run)) ''deployment'' =
         Some (PDict [(''success'', PBool False),
                      (''halted_reason'', PStr ''High risk assessment''),
                      (''ai_risk_assessment'', PDict [(''risk_level'', PInt 4)])])
   \<and> map_of (results (snd (demo vulnerable_run))) ''success'' = Some (PBool True)"
proof -
  have f: "(Scan, Inr (dicts [[(''severity'', PStr ''high'')]])) \<in> set (calls (snd (demo vulnerable_run)))"
    by (simp add: demo_vulnerable_run dicts_def)
  have a: "(AssessDeploymentRisks, Inr (PDict [(''risk_level'', PInt 4)]))
      \<in> set (calls (snd (demo vulnerable_run)))"
    by (simp add: demo_vulnerable_run)
  have g: "(GenerateBuildSummary, Inr (PDict [(''conclusion'', PStr ''ok'')]))
      \<in> set (calls (snd (demo vulnerable_run)))"
    by (simp add: demo_vulnerable_run)
  note t = halted_deployment_leaves_success[OF f[unfolded demo_def] _ a[unfolded demo_def],
      folded demo_def, simplified]
  from t g have "map_of (results (snd (demo vulnerable_run))) ''success'' = Some (PBool True)"
    by blast
  with t f a g show ?thesis by simp
qed

theorem halted_deployment_reports_success:
  "stage_entry (snd (demo vulnerable_run)) ''security_scan'' =
     Some (PDict [(''vulnerabilities'', PInt 1),
                  (''ai_risk_assessment'', PDict [(''risk_level'', PInt 4)])])
   \<and> stage_entry (snd (demo vulnerable_run)) ''deployment'' =
         Some (PDict [(''success'', PBool False),
                      (''halted_reason'', PStr ''High risk assessment''),
                      (''ai_risk_assessment'', PDict [(''risk_level'', PInt 4)])])
   \<and> fst (demo vulnerable_run) = Inr ()
   \<and> map_of (results (snd (demo vulnerable_run))) ''success'' = Some (PBool True)"
  by (simp add: demo_vulnerable_run stage_entry_def)

section \<open>Stage 4 without infrastructure files\<close>

lemma infrastructure_validation_stage_eq:
  "infrastructure_validation_stage self rp =
     bind_prog (invoke FindIacFiles strs (find_iac_files (code_analyzer self) rp)) (\<lambda>iac_files.
       if iac_files \<noteq> [] then infrastructure_checks self iac_files else ret ())"
  unfolding infrastructure_validation_stage_def infrastructure_checks_def by (rule refl)

lemma keeps_infrastructure_checks:
  "keeps (touches {ValidateInfrastructure, AnalyzeInfrastructureChanges} {''infrastructure_validation''})
     (infrastructure_checks self files)"
  unfolding infrastructure_checks_def by (intro keeps_rules) simp_all

lemma entries_before_gate:
  assumes b: "before_deployment self (repo_path_of self) (initial_state now self) = (r4, s4)"
    and k: "k \<noteq> ''deployment''"
  shows "stage_entry (snd (run_pipeline now self)) k = stage_entry s4 k"
proof (cases r4)
  case (Inl e)
  with b show ?thesis by (simp add: run_before_gate handlers_stage_entry)
next
  case (Inr u)
  with b have b': "before_deployment self (repo_path_of self) (initial_state now self) = (Inr u, s4)"
    by simp
  obtain r5 s5 where d: "deployment_stage self (repo_path_of self) s4 = (r5, s5)"
    by (cases "deployment_stage self (repo_path_of self) s4")
  from touchesD_entry[OF keepsD[OF keeps_deployment d], of k] k
  have "stage_entry s5 k = stage_entry s4 k" by simp
  then show ?thesis by (simp add: report_after_gate(1)[OF b' d])
qed

lemma calls_before_gate:
  assumes b: "before_deployment self (repo_path_of self) (initial_state now self) = (r4, s4)"
    and m: "m \<notin> {CreateDeploymentPlan, AssessDeploymentRisks, Deploy, GenerateBuildSummary}"
  shows "(m, x) \<in> set (calls (snd (run_pipeline now self))) \<longleftrightarrow> (m, x) \<in> set (calls s4)"
    and "count_list (invoked (snd (run_pipeline now self))) m = count_list (invoked s4) m"
proof -
  have "((m, x) \<in> set (calls (snd (run_pipeline now self))) \<longleftrightarrow> (m, x) \<in> set (calls s4))
      \<and> count_list (invoked (snd (run_pipeline now self))) m = count_list (invoked s4) m"
  proof (cases r4)
    case (Inl e)
    with b show ?thesis by (simp add: run_before_gate handlers_calls invoked_def)
  next
    case (Inr u)
    with b have b': "before_deployment self (repo_path_of self) (initial_state now self) = (Inr u, s4)"
      by simp
    obtain r5 s5 where d: "deployment_stage self (repo_path_of self) s4 = (r5, s5)"
      by (cases "deployment_stage self (repo_path_of self) s4")
    note t = keepsD[OF keeps_deployment d]
    from m have m1: "m \<noteq> GenerateBuildSummary"
      and m2: "m \<notin> {CreateDeploymentPlan, AssessDeploymentRisks, Deploy}" by simp_all
    from touches_calls_other[OF t m2, of x] touches_invoked_other[OF t m2]
      report_after_gate(2)[OF b' d m1, of x] report_after_gate(3)[OF b' d m1]
    show ?thesis by simp
  qed
  then show "(m, x) \<in> set (calls (snd (run_pipeline now self))) \<longleftrightarrow> (m, x) \<in> set (calls s4)"
    and "count_list (invoked (snd (run_pipeline now self))) m = count_list (invoked s4) m"
    by simp_all
qed

lemma no_files_found:
  assumes c: "(FindIacFiles, Inr (strs [])) \<in> set (calls (snd (run_pipeline now self)))"
  obtains u s3 where
    "analysis_stages self (repo_path_of self) (initial_state now self) = (Inr u, s3)"
    "before_deployment self (repo_path_of self) (initial_state now self) =
       (Inr (), s3\<lparr>calls := calls s3 @ [(FindIacFiles, Inr (strs []))]\<rparr>)"
proof -
  obtain r3 s3 where a: "analysis_stages self (repo_path_of self) (initial_state now self) = (r3, s3)"
    by (cases "analysis_stages self (repo_path_of self) (initial_state now self)")
  note t3 = keepsD[OF keeps_analysis_stages a]
  have n3: "(FindIacFiles, x) \<notin> set (calls s3)" for x
    using touches_calls_other[OF t3, of FindIacFiles x] by (simp add: initial_lookup)
  have nm: "FindIacFiles \<notin> {CreateDeploymentPlan, AssessDeploymentRisks, Deploy, GenerateBuildSummary}"
    by simp
  show thesis
  proof (cases r3)
    case (Inl e)
    with a have b: "before_deployment self (repo_path_of self) (initial_state now self) = (Inl e, s3)"
      by (simp add: before_deployment_def bind_prog_def)
    from calls_before_gate(1)[OF b nm, of "Inr (strs [])"] c n3 show thesis by simp
  next
    case (Inr u)
    with a have b0: "before_deployment self (repo_path_of self) (initial_state now self) =
        infrastructure_validation_stage self (repo_path_of self) s3"
      by (simp add: before_deployment_def bind_prog_def)
    show thesis
    proof (cases "find_iac_files (code_analyzer self) (repo_path_of self)")
      case fail: (Inl e)
      with b0 have b: "before_deployment self (repo_path_of self) (initial_state now self) =
          (Inl e, s3\<lparr>calls := calls s3 @ [(FindIacFiles, Inl e)]\<rparr>)"
        by (simp add: infrastructure_validation_stage_eq bind_invoke)
      from calls_before_gate(1)[OF b nm, of "Inr (strs [])"] c n3 show thesis by simp
    next
      case found: (Inr files)
      show thesis
      proof (cases "files = []")
        case True
        with b0 found have "before_deployment self (repo_path_of self) (initial_state now self) =
            (Inr (), s3\<lparr>calls := calls s3 @ [(FindIacFiles, Inr (strs []))]\<rparr>)"
          by (simp add: infrastructure_validation_stage_eq bind_invoke ret_def)
        with a Inr show thesis by (simp add: that)
      next
        case False
        define s3' where "s3' = s3\<lparr>calls := calls s3 @ [(FindIacFiles, Inr (strs files))]\<rparr>"
        obtain r4 s4 where i: "infrastructure_checks self files s3' = (r4, s4)"
          by (cases "infrastructure_checks self files s3'")
        with b0 found False have b: "before_deployment self (repo_path_of self) (initial_state now self) = (r4, s4)"
          by (simp add: infrastructure_validation_stage_eq bind_invoke s3'_def)
        from calls_before_gate(1)[OF b nm, of "Inr (strs [])"] c
        have "(FindIacFiles, Inr (strs [])) \<in> set (calls s4)" by simp
        with touches_calls_other[OF keepsD[OF keeps_infrastructure_checks i], of FindIacFiles "Inr (strs [])"]
        have "(FindIacFiles, Inr (strs [])) \<in> set (calls s3')" by simp
        with n3 have "strs files = strs []" by (simp add: s3'_def)
        with False show thesis by (simp add: strs_def)
      qed
    qed
  qed
qed

text \<open>
  C7, as the code has it. In every run in which \<^verbatim>\<open>find_iac_files\<close> returned the empty list,
  neither \<^verbatim>\<open>validate_infrastructure\<close> nor the assistant's \<^verbatim>\<open>analyze_infrastructure_changes\<close> is
  invoked, and the report has no \<^verbatim>\<open>infrastructure_validation\<close> entry at all: the stage is
  left out of \<^verbatim>\<open>stages\<close>, no outcome is recorded for it.
\<close>

theorem no_iac_files_no_entry:
  assumes c: "(FindIacFiles, Inr (strs [])) \<in> set (calls (snd (run_pipeline now self)))"
  shows "stage_entry (snd (run_pipeline now self)) ''infrastructure_validation'' = None
    \<and> ValidateInfrastructure \<notin> set (invoked (snd (run_pipeline now self)))
    \<and> AnalyzeInfrastructureChanges \<notin> set (invoked (snd (run_pipeline now self)))"
proof -
  from c obtain u s3 where
    a: "analysis_stages self (repo_path_of self) (initial_state now self) = (Inr u, s3)"
    and b: "before_deployment self (repo_path_of self) (initial_state now self) =
       (Inr (), s3\<lparr>calls := calls s3 @ [(FindIacFiles, Inr (strs []))]\<rparr>)"
    by (rule no_files_found)
  note t3 = keepsD[OF keeps_analysis_stages a]
  have e3: "stage_entry s3 ''infrastructure_validation'' = None"
    using touchesD_entry[OF t3, of "''infrastructure_validation''"]
    by (simp add: stage_entry_def initial_lookup)
  have v3: "count_list (invoked s3) ValidateInfrastructure = 0"
    using touches_invoked_other[OF t3, of ValidateInfrastructure]
    by (simp add: invoked_def initial_lookup)
  have a3: "count_list (invoked s3) AnalyzeInfrastructureChanges = 0"
    using touches_invoked_other[OF t3, of AnalyzeInfrastructureChanges]
    by (simp add: invoked_def initial_lookup)
  have "stage_entry (snd (run_pipeline now self)) ''infrastructure_validation'' = None"
    unfolding entries_before_gate[OF b, of "''infrastructure_validation''", simplified]
    using e3 by (simp add: stage_entry_def)
  moreover have "count_list (invoked (snd (run_pipeline now self))) ValidateInfrastructure = 0"
    unfolding calls_before_gate(2)[OF b, of ValidateInfrastructure, simplified]
    using v3 by (simp add: invoked_def)
  moreover have "count_list (invoked (snd (run_pipeline now self))) AnalyzeInfrastructureChanges = 0"
    unfolding calls_before_gate(2)[OF b, of AnalyzeInfrastructureChanges, simplified]
    using a3 by (simp add: invoked_def)
  ultimately show ?thesis by (simp add: count_list_0_iff)
qed

theorem no_iac_files_no_entry_witness:
  "(FindIacFiles, Inr (strs [])) \<in> set (calls (snd (demo clean_run)))
   \<and> stage_entry (snd (demo clean_run)) ''infrastructure_validation'' = None
   \<and> ValidateInfrastructure \<notin> set (invoked (snd (demo clean_run)))
   \<and> AnalyzeInfrastructureChanges \<notin> set (invoked (snd (demo clean_run)))"
proof -
  have c: "(FindIacFiles, Inr (strs [])) \<in> set (calls (snd (demo clean_run)))"
    by (simp add: demo_clean_run strs_def)
  from no_iac_files_no_entry[OF c[unfolded demo_def], folded demo_def] c
  show ?thesis by simp
qed

theorem no_iac_files_nothing_recorded:
  "(FindIacFiles, Inr (PList [])) \<in> set (calls (snd (demo clean_run)))
   \<and> fst (demo clean_run) = Inr ()
   \<and> map_of (results (snd (demo clean_run))) ''stages'' =
       Some (PDict
         [(''code_analysis'',
           PDict [(''issues_found'', PInt 0),
                  (''ai_suggestions'', PDict [(''suggestions'', PList [])])]),
          (''security_scan'',
           PDict [(''vulnerabilities'', PInt 0),
                  (''ai_risk_assessment'',
                   PDict [(''risk_level'', PInt 0),
                          (''analysis'', PStr ''No security issues found.'')])]),
          (''testing'',
           PDict [(''passed'', PInt 5), (''failed'', PInt 0),
                  (''coverage'', PFloat (Finite (3 / 4))),
                  (''ai_test_suggestions'', PDict [(''suggestions'', PList [])])]),
          (''deployment'',
           PDict [(''success'', PBool True), (''environment'', PStr ''production''),
                  (''ai_risk_assessment'', PDict [(''risk_level'', PInt 1)])])])
   \<and> stage_entry (snd (demo clean_run)) ''infrastructure_validation'' = None"
  by (simp add: demo_clean_run stage_entry_def)

section \<open>The gate on the earlier stages\<close>

lemma all_passed_falsy:
  assumes "v \<in> set vs" and "py_get v ''passed'' (PBool True) = Inr p" and "\<not> truthy p"
  shows "all_passed vs \<noteq> Inr True"
  using assms(1)
proof (induction vs)
  case Nil
  then show ?case by simp
next
  case (Cons x rest)
  show ?case
  proof (cases "x = v")
    case True
    with assms(2,3) show ?thesis by simp
  next
    case False
    with Cons have "all_passed rest \<noteq> Inr True" by simp
    then show ?thesis by (simp split: sum.splits)
  qed
qed

text \<open>
  C1, as the code has it. The gate of line 119 looks at the field \<^verbatim>\<open>passed\<close> of every stage
  entry and takes a missing field as \<^verbatim>\<open>True\<close>. In every run in which an entry recorded by
  one of the earlier stages has a falsy \<^verbatim>\<open>passed\<close> (only the testing entry has that field,
  the number of tests that passed), the deployment stage is not executed: no deployment plan
  is created, no risk assessment is requested, \<^verbatim>\<open>deploy\<close> is not invoked and no deployment
  entry is recorded, whatever risk level the assistant would have returned.
\<close>

theorem no_passed_tests_no_deployment:
  assumes e: "stage_entry (snd (run_pipeline now self)) k = Some (PDict t)"
    and k: "k \<noteq> ''deployment''"
    and p: "map_of t ''passed'' = Some p"
    and f: "\<not> truthy p"
  shows "CreateDeploymentPlan \<notin> set (invoked (snd (run_pipeline now self)))
    \<and> AssessDeploymentRisks \<notin> set (invoked (snd (run_pipeline now self)))
    \<and> Deploy \<notin> set (invoked (snd (run_pipeline now self)))
    \<and> stage_entry (snd (run_pipeline now self)) ''deployment'' = None"
proof -
  obtain r4 s4 where b: "before_deployment self (repo_path_of self) (initial_state now self) = (r4, s4)"
    by (cases "before_deployment self (repo_path_of self) (initial_state now self)")
  note g = gate_state[OF b]
  from g(1) obtain st where st: "map_of (results s4) ''stages'' = Some (PDict st)" by blast
  have n: "count_list (invoked s4) m = 0"
    if "m \<in> {CreateDeploymentPlan, AssessDeploymentRisks, Deploy}" for m
  proof -
    from that have "m \<in> {CreateDeploymentPlan, AssessDeploymentRisks, Deploy, GenerateBuildSummary}"
      by auto
    from g(2)[OF this] show ?thesis by (simp add: invoked_def)
  qed
  have "(\<forall>m. m \<in> {CreateDeploymentPlan, AssessDeploymentRisks, Deploy} \<longrightarrow>
           count_list (invoked (snd (run_pipeline now self))) m = 0)
        \<and> stage_entry (snd (run_pipeline now self)) ''deployment'' = None"
  proof (cases r4)
    case (Inl x)
    with b have run: "run_pipeline now self = handlers now (Inl x, s4)" by (simp add: run_before_gate)
    have "invoked (snd (run_pipeline now self)) = invoked s4"
      by (simp add: run invoked_def handlers_calls)
    moreover have "stage_entry (snd (run_pipeline now self)) ''deployment'' = stage_entry s4 ''deployment''"
      by (simp add: run handlers_stage_entry)
    ultimately show ?thesis using n g(3) by simp
  next
    case (Inr u)
    with b have b': "before_deployment self (repo_path_of self) (initial_state now self) = (Inr u, s4)"
      by simp
    from e entries_before_gate[OF b k] have "stage_entry s4 k = Some (PDict t)" by simp
    with st have "map_of st k = Some (PDict t)" by (simp add: stage_entry_def)
    then have "(k, PDict t) \<in> set st" by (rule map_of_SomeD)
    then have m: "PDict t \<in> set (map snd st)" by force
    have "py_get (PDict t) ''passed'' (PBool True) = Inr p" by (simp add: p)
    from all_passed_falsy[OF m this f] have "all_passed (map snd st) \<noteq> Inr True" .
    from deployment_stage_closed[OF st this, of self "repo_path_of self"]
    obtain r5 where d: "deployment_stage self (repo_path_of self) s4 = (r5, s4)"
      by (cases "deployment_stage self (repo_path_of self) s4") simp
    have "count_list (invoked (snd (run_pipeline now self))) m = 0"
      if "m \<in> {CreateDeploymentPlan, AssessDeploymentRisks, Deploy}" for m
    proof -
      from that have "m \<noteq> GenerateBuildSummary" by auto
      from report_after_gate(3)[OF b' d this] n[OF that] show ?thesis by simp
    qed
    moreover have "stage_entry (snd (run_pipeline now self)) ''deployment'' = None"
      by (simp add: report_after_gate(1)[OF b' d] g(3))
    ultimately show ?thesis by blast
  qed
  then show ?thesis by (simp add: count_list_0_iff)
qed

theorem no_passed_tests_no_deployment_witness:
  "stage_entry (snd (demo failing_tests_run)) ''testing'' =
     Some (PDict [(''passed'', PInt 0), (''failed'', PInt 5), (''coverage'', PFloat (Finite 0)),
                  (''ai_test_suggestions'', PDict [(''suggestions'', PList [])])])
   \<and> ''testing'' \<noteq> ''deployment''
   \<and> map_of [(''passed'', PInt 0), (''failed'', PInt 5), (''coverage'', PFloat (Finite 0)),
              (''ai_test_suggestions'', PDict [(''suggestions'', PList [])])] ''passed'' = Some (PInt 0)
   \<and> \<not> truthy (PInt 0)
   \<and> CreateDeploymentPlan \<notin> set (invoked (snd (demo failing_tests_run)))
   \<and> AssessDeploymentRisks \<notin> set (invoked (snd (demo failing_tests_run)))
   \<and> Deploy \<notin> set (invoked (snd (demo failing_tests_run)))
   \<and> stage_entry (snd (demo failing_tests_run)) ''deployment'' = None"
proof -
  have e: "stage_entry (snd (demo failing_tests_run)) ''testing'' =
     Some (PDict [(''passed'', PInt 0), (''failed'', PInt 5), (''coverage'', PFloat (Finite 0)),
                  (''ai_test_suggestions'', PDict [(''suggestions'', PList [])])])"
    by (simp add: demo_failing_tests_run stage_entry_def)
  from no_passed_tests_no_deployment[OF e[unfolded demo_def], of "PInt 0", folded demo_def] e
  show ?thesis by simp
qed

theorem issues_and_findings_do_not_close_the_gate:
  "stage_entry (snd (demo flawed_run)) ''code_analysis'' =
     Some (PDict [(''issues_found'', PInt 1),
                  (''ai_suggestions'', PDict [(''suggestions'', PList [])])])
   \<and> stage_entry (snd (demo flawed_run)) ''security_scan'' =
     Some (PDict [(''vulnerabilities'', PInt 1),
                  (''ai_risk_assessment'',
                   PDict [(''risk_level'', PInt 0),
                          (''analysis'', PStr ''No security issues found.'')])])
   \<and> (AssessDeploymentRisks, Inr (PDict [(''risk_level'', PInt 0)])) \<in> set (calls (snd (demo flawed_run)))
   \<and> count_list (invoked (snd (demo flawed_run))) Deploy = 1
   \<and> stage_entry (snd (demo flawed_run)) ''deployment'' =
     Some (PDict [(''success'', PBool True), (''environment'', PStr ''production''),
                  (''ai_risk_assessment'', PDict [(''risk_level'', PInt 0)])])"
  by (simp add: demo_flawed_run stage_entry_def invoked_def)

section \<open>Two runs with the same collaborator outputs\<close>

lemma without_run_identity_lookup:
  "k \<noteq> ''build_id'' \<Longrightarrow> k \<noteq> ''started_at'' \<Longrightarrow> k \<noteq> ''completed_at'' \<Longrightarrow>
   map_of (without_run_identity d) k = map_of d k"
  by (simp add: without_run_identity_def)

lemma without_run_identity_update:
  "k \<noteq> ''build_id'' \<Longrightarrow> k \<noteq> ''started_at'' \<Longrightarrow> k \<noteq> ''completed_at'' \<Longrightarrow>
   without_run_identity (AList.update k v d) = AList.update k v (without_run_identity d)"
  by (simp add: without_run_identity_def delete_update)

lemma without_run_identity_completed:
  "without_run_identity (AList.update ''completed_at'' v d) = without_run_identity d"
  by (simp add: without_run_identity_def delete_update delete_update_same)

lemma same_report_lookup:
  assumes "same_report s s'"
    and "k \<noteq> ''build_id''" "k \<noteq> ''started_at''" "k \<noteq> ''completed_at''"
  shows "map_of (results s) k = map_of (results s') k"
proof -
  from assms(1) have "map_of (without_run_identity (results s)) k =
      map_of (without_run_identity (results s')) k"
    by (simp add: same_report_def)
  with assms(2-4) show ?thesis by (simp add: without_run_identity_lookup)
qed

lemma same_report_setitem:
  assumes "same_report s s'"
    and "k \<noteq> ''build_id''" "k \<noteq> ''started_at''" "k \<noteq> ''completed_at''"
  shows "same_report (results_setitem k v s) (results_setitem k v s')"
  using assms by (simp add: same_report_def results_setitem_def without_run_identity_update)

lemma stableI:
  assumes "\<And>s s'. same_report s s' \<Longrightarrow> fst (m s) = fst (m s')"
    and "\<And>s s'. same_report s s' \<Longrightarrow> same_report (snd (m s)) (snd (m s'))"
  shows "stable m"
  unfolding stable_def using assms by blast

lemma stableD:
  assumes "stable m" and "same_report s s'"
  shows "fst (m s) = fst (m s')" and "same_report (snd (m s)) (snd (m s'))"
  using assms unfolding stable_def by blast+

lemma stable_bind:
  assumes m: "stable m" and f: "\<And>x. stable (f x)"
  shows "stable (bind_prog m f)"
proof -
  have "fst (bind_prog m f s) = fst (bind_prog m f s') \<and>
        same_report (snd (bind_prog m f s)) (snd (bind_prog m f s'))"
    if r: "same_report s s'" for s s'
  proof -
    obtain r1 s1 where a: "m s = (r1, s1)" by (cases "m s")
    obtain r2 s2 where b: "m s' = (r2, s2)" by (cases "m s'")
    from stableD[OF m r] a b have eq: "r2 = r1" and r1: "same_report s1 s2" by simp_all
    show ?thesis
    proof (cases r1)
      case (Inl e)
      with a b eq r1 show ?thesis by (simp add: bind_prog_def)
    next
      case (Inr x)
      with a b eq stableD[OF f r1, of x] show ?thesis by (simp add: bind_prog_def)
    qed
  qed
  then show ?thesis by (intro stableI) blast+
qed

lemma stable_if: "stable a \<Longrightarrow> stable b \<Longrightarrow> stable (if c then a else b)"
  by simp

lemma stable_invoke: "stable (invoke m w r)"
  by (rule stableI) (simp_all add: invoke_def same_report_def)

lemma stable_expr: "stable (expr r)"
  by (rule stableI) (simp_all add: expr_def)

lemma stable_ret: "stable (ret x)"
  by (rule stableI) (simp_all add: ret_def)

lemma stable_results_stages: "stable results_stages"
proof (rule stableI)
  fix s s' assume r: "same_report s s'"
  from same_report_lookup[OF r, of "''stages''"]
  show "fst (results_stages s) = fst (results_stages s')"
    by (simp add: results_stages_def)
  from r show "same_report (snd (results_stages s)) (snd (results_stages s'))"
    by (simp add: results_stages_def)
qed

lemma stable_stages_setitem: "stable (stages_setitem k e)"
proof -
  have "fst (stages_setitem k e s) = fst (stages_setitem k e s') \<and>
        same_report (snd (stages_setitem k e s)) (snd (stages_setitem k e s'))"
    if r: "same_report s s'" for s s'
  proof -
    from same_report_lookup[OF r, of "''stages''"]
    have l: "map_of (results s) ''stages'' = map_of (results s') ''stages''" by simp
    have u: "same_report (s\<lparr>results := AList.update ''stages'' v (results s)\<rparr>)
                         (s'\<lparr>results := AList.update ''stages'' v (results s')\<rparr>)" for v
      using r by (simp add: same_report_def without_run_identity_update)
    show ?thesis
      using l r u by (simp add: stages_setitem_def split: sum.splits option.splits)
  qed
  then show ?thesis by (intro stableI) blast+
qed

lemma stable_ai_summary: "stable (\<lambda>s. (Inr (), results_setitem ''ai_summary'' v s))"
  by (rule stableI) (simp_all add: same_report_setitem)

lemmas stable_rules = stable_bind stable_if stable_invoke stable_expr stable_ret
  stable_results_stages stable_stages_setitem stable_ai_summary

lemma stubbed_sel:
  "repo_url (stubbed url br bid out) = url"
  "branch (stubbed url br bid out) = br"
  "build_id (stubbed url br bid out) = bid"
  "analyze (code_analyzer (stubbed url br bid out)) = (\<lambda>_. analyze_out out)"
  "get_recent_changes (code_analyzer (stubbed url br bid out)) = (\<lambda>_. get_recent_changes_out out)"
  "find_iac_files (code_analyzer (stubbed url br bid out)) = (\<lambda>_. find_iac_files_out out)"
  "run_tests (test_manager (stubbed url br bid out)) = (\<lambda>_. run_tests_out out)"
  "scan (security_scanner (stubbed url br bid out)) = (\<lambda>_. scan_out out)"
  "validate_infrastructure (deployment_manager (stubbed url br bid out)) = (\<lambda>_. validate_infrastructure_out out)"
  "create_deployment_plan (deployment_manager (stubbed url br bid out)) = (\<lambda>_. create_deployment_plan_out out)"
  "deploy (deployment_manager (stubbed url br bid out)) = (\<lambda>_. deploy_out out)"
  "get_code_improvements (ai_assistant (stubbed url br bid out)) = (\<lambda>_. get_code_improvements_out out)"
  "assess_security_risks (ai_assistant (stubbed url br bid out)) = (\<lambda>_. assess_security_risks_out out)"
  "suggest_additional_tests (ai_assistant (stubbed url br bid out)) = (\<lambda>_ _. suggest_additional_tests_out out)"
  "analyze_infrastructure_changes (ai_assistant (stubbed url br bid out)) = (\<lambda>_. analyze_infrastructure_changes_out out)"
  "assess_deployment_risks (ai_assistant (stubbed url br bid out)) = (\<lambda>_ _ _. assess_deployment_risks_out out)"
  "generate_build_summary (ai_assistant (stubbed url br bid out)) = (\<lambda>_. generate_build_summary_out out)"
  by (simp_all add: stubbed_def)

lemma stubbed_stages:
  "code_analysis_stage (stubbed url br bid out) rp = code_analysis_stage (stubbed url br bid' out) rp'"
  "security_scan_stage (stubbed url br bid out) rp = security_scan_stage (stubbed url br bid' out) rp'"
  "testing_stage (stubbed url br bid out) rp = testing_stage (stubbed url br bid' out) rp'"
  "infrastructure_validation_stage (stubbed url br bid out) rp =
     infrastructure_validation_stage (stubbed url br bid' out) rp'"
  "deploy_or_halt (stubbed url br bid out) plan risks = deploy_or_halt (stubbed url br bid' out) plan risks"
  "build_summary (stubbed url br bid out) = build_summary (stubbed url br bid' out)"
  unfolding code_analysis_stage_def security_scan_stage_def testing_stage_def
    infrastructure_validation_stage_def deploy_or_halt_def build_summary_def stubbed_sel
  by (rule refl)+

lemma stubbed_deployment_stage:
  "deployment_stage (stubbed url br bid out) rp = deployment_stage (stubbed url br bid' out) rp'"
  unfolding deployment_stage_def stubbed_stages(5)[of url br bid out _ _ bid'] stubbed_sel
  by (rule refl)

lemma stubbed_try_block:
  "try_block (stubbed url br bid out) = try_block (stubbed url br bid' out)"
  unfolding try_block_def clone_repository_def bind_ret
    stubbed_stages(1-4)[of url br bid out "''/tmp/repo-'' @ build_id (stubbed url br bid out)" bid'
       "''/tmp/repo-'' @ build_id (stubbed url br bid' out)"]
    stubbed_deployment_stage[of url br bid out "''/tmp/repo-'' @ build_id (stubbed url br bid out)" bid'
       "''/tmp/repo-'' @ build_id (stubbed url br bid' out)"]
    stubbed_stages(6)[of url br bid out bid']
  by (rule refl)

lemma stable_build_summary: "stable (build_summary (stubbed url br bid out))"
proof -
  have "build_summary (stubbed url br bid out) =
      bind_prog (invoke GenerateBuildSummary PDict (generate_build_summary_out out))
        (\<lambda>summary s. (Inr (), results_setitem ''ai_summary'' (PDict summary) s))"
    by (rule ext) (simp add: build_summary_def bind_read_results stubbed_sel)
  then show ?thesis by (simp only: stable_rules)
qed

lemma stable_try_block: "stable (try_block (stubbed url br bid out))"
  unfolding try_block_def clone_repository_def code_analysis_stage_def security_scan_stage_def
    testing_stage_def infrastructure_validation_stage_def deployment_stage_def deploy_or_halt_def
  by (intro stable_rules stable_build_summary)

lemma same_report_initially:
  "same_report (initial_state now (stubbed url br bid out)) (initial_state now' (stubbed url br bid' out))"
  by (simp add: same_report_def initial_state_def initial_results_def without_run_identity_def stubbed_sel)

lemma handlers_same_report:
  assumes "same_report s s'"
  shows "fst (handlers now (r, s)) = fst (handlers now' (r, s'))"
    and "same_report (snd (handlers now (r, s))) (snd (handlers now' (r, s')))"
proof -
  have c: "same_report (results_setitem ''completed_at'' v a) (results_setitem ''completed_at'' v' a')"
    if "same_report a a'" for a a' v v'
    using that by (simp add: same_report_def results_setitem_def without_run_identity_completed)
  show "fst (handlers now (r, s)) = fst (handlers now' (r, s'))"
    by (simp add: handlers_def split: sum.splits)
  show "same_report (snd (handlers now (r, s))) (snd (handlers now' (r, s')))"
    using assms by (simp add: handlers_def c same_report_setitem split: sum.splits)
qed

text \<open>
  C9. Two runs whose collaborators have the same outcomes (the test doubles of \<open>out\<close>, each
  method being invoked at most once in a run), for the same repository and branch but with
  different build identifiers and clocks, end the same way: both return or both raise the
  same exception, they have made the same calls, and their reports are equal once
  \<^verbatim>\<open>build_id\<close>, \<^verbatim>\<open>started_at\<close> and \<^verbatim>\<open>completed_at\<close> are removed.
\<close>

theorem report_determined_by_collaborator_outputs:
  "fst (run_pipeline now (stubbed url br bid out)) = fst (run_pipeline now' (stubbed url br bid' out))
   \<and> calls (snd (run_pipeline now (stubbed url br bid out))) =
       calls (snd (run_pipeline now' (stubbed url br bid' out)))
   \<and> without_run_identity (results (snd (run_pipeline now (stubbed url br bid out)))) =
       without_run_identity (results (snd (run_pipeline now' (stubbed url br bid' out))))"
proof -
  let ?m = "try_block (stubbed url br bid out)"
  let ?s = "initial_state now (stubbed url br bid out)"
  let ?s' = "initial_state now' (stubbed url br bid' out)"
  obtain r s1 where a: "?m ?s = (r, s1)" by (cases "?m ?s")
  obtain r' s2 where b: "?m ?s' = (r', s2)" by (cases "?m ?s'")
  from stableD[OF stable_try_block[of url br bid out] same_report_initially[of now url br bid out now' bid']] a b
  have eq: "r' = r" and r1: "same_report s1 s2" by simp_all
  have run: "run_pipeline now (stubbed url br bid out) = handlers now (r, s1)"
    by (simp add: run_pipeline_def a)
  have run': "run_pipeline now' (stubbed url br bid' out) = handlers now' (r, s2)"
    using b eq by (simp add: run_pipeline_def stubbed_try_block[of url br bid' out bid])
  from handlers_same_report[OF r1, of now r now'] show ?thesis
    unfolding run run' by (simp add: same_report_def)
qed

end
